theory Spec2Isabelle
  imports Complex_Main "HOL-Library.Multiset" "HOL-Library.Word"
begin

section \<open>The training pipeline of TFhelper.js\<close>

text \<open>
  The module exports \<^verbatim>\<open>learnTransferModel\<close>, which calls \<^verbatim>\<open>folderToTensors\<close>, which calls
  \<^verbatim>\<open>fileToTensor\<close> for every enumerated file and the local function \<^verbatim>\<open>shuffleCombo\<close>.
  The functions of the libraries the module requires (glob, fs, TensorFlow.js, Math.random,
  the socket) are not part of the module; what they return is a parameter of the model,
  collected in the record \<open>env\<close>. Tensor values are modelled as exact rationals, so
  \<^verbatim>\<open>div(255)\<close> is exact division.
\<close>

subsection \<open>Values\<close>

datatype error =
    GlobError string
  | FsError string
  | DecodeError string
  | TfError string
  | ModelLoadError string

type_synonym bytes = "8 word list"

record tensor =
  shape :: "nat list"
  vals :: "rat list"

text \<open>A JavaScript array: \<open>None\<close> is \<^verbatim>\<open>undefined\<close> (also what a hole reads as).\<close>

type_synonym 'a js_array = "'a option list"

datatype console =
    Log string
  | LogShape string "nat list"
  | LogValue rat
  | LogEpoch nat rat
  | ConsoleError string error
  | AssertionFailed

datatype event =
    LogEvent string
  | UpdateProgress nat
  | LearnCompleted

datatype 'a promise =
    Pending
  | Fulfilled 'a
  | Rejected "error option"

type_synonym model = "rat list"

type_synonym socket = nat

record env =
  glob :: "string \<Rightarrow> error + string list"
  readFileSync :: "string \<Rightarrow> error + bytes"
  decodeImage :: "bytes \<Rightarrow> nat \<Rightarrow> error + tensor"
  resizeBilinear :: "tensor \<Rightarrow> nat list \<Rightarrow> tensor"
  math_random :: "nat \<Rightarrow> rat"
  loadGraphModel :: "string \<Rightarrow> error + (tensor \<Rightarrow> tensor)"
  sequential :: "nat \<Rightarrow> model"
  evaluate :: "model \<Rightarrow> tensor \<Rightarrow> tensor \<Rightarrow> rat"
  fitEpoch :: "model \<Rightarrow> tensor \<Rightarrow> tensor \<Rightarrow> model \<times> rat"

text \<open>
  \<open>math_random env k\<close> is the value of the \<open>k\<close>-th call of \<^verbatim>\<open>Math.random()\<close> (counting from 0);
  its contract is a number in \<open>[0, 1)\<close>.
\<close>

definition random_ok :: "(nat \<Rightarrow> rat) \<Rightarrow> bool" where
  "random_ok rnd = (\<forall>k. 0 \<le> rnd k \<and> rnd k < 1)"

subsection \<open>JavaScript built-ins\<close>

definition js_get :: "'a js_array \<Rightarrow> nat \<Rightarrow> 'a option" where
  "js_get a i = (if i < length a then a ! i else None)"

text \<open>An assignment beyond the end extends the array, leaving holes.\<close>

definition js_set :: "'a js_array \<Rightarrow> nat \<Rightarrow> 'a option \<Rightarrow> 'a js_array" where
  "js_set a i v =
     (if i < length a then a[i := v]
      else a @ replicate (i - length a) None @ [v])"

definition js_includes :: "'a list \<Rightarrow> 'a \<Rightarrow> bool" where
  "js_includes xs x = (x \<in> set xs)"

fun js_indexOf :: "'a list \<Rightarrow> 'a \<Rightarrow> int" where
  "js_indexOf [] x = - 1"
| "js_indexOf (y # ys) x =
     (if y = x then 0
      else (let r = js_indexOf ys x in if r < 0 then - 1 else r + 1))"

text \<open>
  \<^verbatim>\<open>(Math.random() * counter) | 0\<close>: the product truncated to an integer. The source
  rounds the product to a double before it truncates; the model multiplies exactly. The two
  can differ by one when the exact product lies just below an integer, and both give an
  index in \<open>[0, counter)\<close>, which is all that the theorems below use of the index: they hold
  for every sequence of indices in range. The 32-bit conversion of \<^verbatim>\<open>| 0\<close> leaves an
  operand below \<open>2^31\<close> unchanged, and the operand is below \<^verbatim>\<open>counter\<close>, an array length.
\<close>

definition rand_index :: "rat \<Rightarrow> nat \<Rightarrow> nat" where
  "rand_index r counter = nat \<lfloor>r * of_nat counter\<rfloor>"

fun string_of_nat :: "nat \<Rightarrow> string" where
  "string_of_nat n =
     (if n < 10 then [''0123456789'' ! n]
      else string_of_nat (n div 10) @ [''0123456789'' ! (n mod 10)])"

declare string_of_nat.simps [simp del]

text \<open>\<^verbatim>\<open>`${shape}`\<close>: the elements joined by commas.\<close>

fun shape_string :: "nat list \<Rightarrow> string" where
  "shape_string [] = []"
| "shape_string [n] = string_of_nat n"
| "shape_string (n # ns) = string_of_nat n @ '','' @ shape_string ns"

text \<open>\<^verbatim>\<open>path.basename\<close> and \<^verbatim>\<open>path.dirname\<close> of Node.js, POSIX flavour.\<close>

definition path_basename :: "string \<Rightarrow> string" where
  "path_basename p =
     rev (takeWhile (\<lambda>c. c \<noteq> CHR ''/'') (dropWhile (\<lambda>c. c = CHR ''/'') (rev p)))"

definition path_dirname :: "string \<Rightarrow> string" where
  "path_dirname p =
     (case p of
        [] \<Rightarrow> ''.''
      | c0 # rest \<Rightarrow>
          (let r = dropWhile (\<lambda>c. c \<noteq> CHR ''/'') (dropWhile (\<lambda>c. c = CHR ''/'') (rev rest))
           in if r = [] then (if c0 = CHR ''/'' then ''/'' else ''.'')
              else if c0 = CHR ''/'' \<and> tl r = [] then ''//''
              else c0 # rev (tl r)))"

subsection \<open>TensorFlow.js operations\<close>

definition tf_div :: "tensor \<Rightarrow> rat \<Rightarrow> tensor" where
  "tf_div t d = t\<lparr>vals := map (\<lambda>v. v / d) (vals t)\<rparr>"

definition tf_cast_float32 :: "tensor \<Rightarrow> tensor" where
  "tf_cast_float32 t = t"

text \<open>
  \<^verbatim>\<open>tf.stack\<close> wants at least one tensor, every element a tensor, all of one shape; the
  result has the new leading axis.
\<close>

definition tf_stack :: "tensor js_array \<Rightarrow> error + tensor" where
  "tf_stack ts =
     (if ts = [] then Inl (TfError ''Pass at least one tensor to tf.stack'')
      else if None \<in> set ts then Inl (TfError ''must be a Tensor or TensorLike'')
      else (let us = map the ts in
            if \<exists>u \<in> set us. shape u \<noteq> shape (hd us)
            then Inl (TfError ''All tensors passed to stack must have matching shapes'')
            else Inr \<lparr>shape = length us # shape (hd us), vals = concat (map vals us)\<rparr>))"

definition oneHot_row :: "nat \<Rightarrow> int \<Rightarrow> rat list" where
  "oneHot_row depth y = map (\<lambda>j. if int j = y then 1 else 0) [0..<depth]"

text \<open>
  \<^verbatim>\<open>tf.oneHot(indices, depth)\<close>: depth must be at least 2; an index outside
  \<open>[0, depth)\<close> gives a row of zeros.
\<close>

definition tf_oneHot :: "int js_array \<Rightarrow> nat \<Rightarrow> error + tensor" where
  "tf_oneHot indices depth =
     (if depth < 2 then Inl (TfError ''Error in oneHot: depth must be >=2'')
      else if None \<in> set indices then Inl (TfError ''indices must be numbers'')
      else Inr \<lparr>shape = [length indices, depth],
                vals = concat (map (\<lambda>y. oneHot_row depth (the y)) indices)\<rparr>)"

text \<open>Row \<open>i\<close> of a tensor of shape \<open>[n, d]\<close>.\<close>

definition row :: "tensor \<Rightarrow> nat \<Rightarrow> rat list" where
  "row t i = take (shape t ! 1) (drop (i * (shape t ! 1)) (vals t))"

subsection \<open>fileToTensor\<close>

definition fileToTensor :: "env \<Rightarrow> string \<Rightarrow> nat list \<Rightarrow> error + tensor" where
  "fileToTensor env filePath imsize =
     (case readFileSync env filePath of
        Inl e \<Rightarrow> Inl e
      | Inr rawimage \<Rightarrow>
          (case decodeImage env rawimage 3 of
             Inl e \<Rightarrow> Inl e
           | Inr imageTensor \<Rightarrow>
               (let resizedTensor = resizeBilinear env imageTensor imsize;
                    normalizedTensor = tf_cast_float32 (tf_div resizedTensor 255)
                in Inr normalizedTensor)))"

subsection \<open>shuffleCombo\<close>

text \<open>
  The \<^verbatim>\<open>while (counter > 0)\<close> loop. \<open>calls\<close> counts the calls of \<^verbatim>\<open>Math.random()\<close> made so far.
\<close>

fun shuffleCombo_while ::
  "(nat \<Rightarrow> rat) \<Rightarrow> nat \<Rightarrow> nat \<Rightarrow> 'a js_array \<Rightarrow> 'b js_array \<Rightarrow> 'a js_array \<times> 'b js_array"
where
  "shuffleCombo_while rnd calls 0 array array2 = (array, array2)"
| "shuffleCombo_while rnd calls (Suc c) array array2 =
     (let index = rand_index (rnd calls) (Suc c);
          counter = c;
          temp = js_get array counter;
          temp2 = js_get array2 counter;
          array = js_set array counter (js_get array index);
          array2 = js_set array2 counter (js_get array2 index);
          array = js_set array index temp;
          array2 = js_set array2 index temp2
      in shuffleCombo_while rnd (Suc calls) counter array array2)"

text \<open>
  \<^verbatim>\<open>console.assert\<close> prints when its argument is false and goes on. The result is what
  was printed and the two arrays after the loop.
\<close>

definition shuffleCombo ::
  "(nat \<Rightarrow> rat) \<Rightarrow> 'a js_array \<Rightarrow> 'b js_array \<Rightarrow> console list \<times> 'a js_array \<times> 'b js_array"
where
  "shuffleCombo rnd array array2 =
     (let counter = length array;
          printed = (if length array = length array2 then [] else [AssertionFailed])
      in (printed, shuffleCombo_while rnd 0 counter array array2))"

subsection \<open>folderToTensors\<close>

text \<open>
  The arrays the \<^verbatim>\<open>forEach\<close> callback fills. \<open>opened\<close> is not a variable of the source: it
  records, in order, the files handed to \<^verbatim>\<open>fileToTensor\<close>.
\<close>

record loader =
  XS :: "tensor list"
  YS :: "int list"
  dirs :: "string list"
  opened :: "string list"

definition init_loader :: loader where
  "init_loader = \<lparr>XS = [], YS = [], dirs = [], opened = []\<rparr>"

definition label_of :: "string \<Rightarrow> string" where
  "label_of file = path_basename (path_dirname file)"

text \<open>One call of the callback; \<open>Inl\<close> is the exception \<^verbatim>\<open>fileToTensor\<close> threw.\<close>

definition forEach_body :: "env \<Rightarrow> nat list \<Rightarrow> loader \<Rightarrow> string \<Rightarrow> (error \<times> loader) + loader" where
  "forEach_body env imsize st file =
     (let dir = label_of file;
          dirs1 = (if \<not> js_includes (dirs st) dir then dirs st @ [dir] else dirs st);
          answer = js_indexOf dirs1 dir;
          st1 = st\<lparr>dirs := dirs1, opened := opened st @ [file]\<rparr>
      in case fileToTensor env file imsize of
           Inl e \<Rightarrow> Inl (e, st1)
         | Inr imageTensor \<Rightarrow>
             Inr (st1\<lparr>YS := YS st1 @ [answer], XS := XS st1 @ [imageTensor]\<rparr>))"

fun forEach :: "env \<Rightarrow> nat list \<Rightarrow> string list \<Rightarrow> loader \<Rightarrow> (error \<times> loader) + loader" where
  "forEach env imsize [] st = Inr st"
| "forEach env imsize (file # files) st =
     (case forEach_body env imsize st file of
        Inl thrown \<Rightarrow> Inl thrown
      | Inr st' \<Rightarrow> forEach env imsize files st')"

record 'a outcome =
  console :: "console list"
  reads :: "string list"
  settled :: "'a promise"
  exit_code :: "nat option"

text \<open>The \<^verbatim>\<open>.catch\<close> handler: print, \<^verbatim>\<open>reject()\<close> without a reason, \<^verbatim>\<open>process.exit(1)\<close>.\<close>

definition catch_handler :: "console list \<Rightarrow> string list \<Rightarrow> error \<Rightarrow> 'a outcome" where
  "catch_handler printed rd err =
     \<lparr>console = printed @ [ConsoleError ''Failed to access files'' err],
      reads = rd, settled = Rejected None, exit_code = Some 1\<rparr>"

definition glob_pattern :: "string \<Rightarrow> string" where
  "glob_pattern dirPath = dirPath @ ''/*/*.@(png|jpeg|jpg|bmp)''"

definition folderToTensors ::
  "env \<Rightarrow> string \<Rightarrow> nat list \<Rightarrow> (tensor \<times> tensor \<times> string list) outcome"
where
  "folderToTensors env dirPath imsize =
     (let console0 = [Log ''Identifying Image List''] in
      case glob env (glob_pattern dirPath) of
        Inl err \<Rightarrow> catch_handler console0 [] err
      | Inr files \<Rightarrow>
          (let console1 = console0 @
                 [Log (string_of_nat (length files) @ '' Files Found''),
                  Log ''Now converting to tensors'']
           in case forEach env imsize files init_loader of
                Inl (err, st) \<Rightarrow> catch_handler console1 (opened st) err
              | Inr st \<Rightarrow>
                  (case shuffleCombo (math_random env) (map Some (XS st)) (map Some (YS st)) of
                     (printed, array, array2) \<Rightarrow>
                       (let console2 = console1 @ printed @ [Log ''Stacking''] in
                        case tf_stack array of
                          Inl err \<Rightarrow> catch_handler console2 (opened st) err
                        | Inr X \<Rightarrow>
                            (case tf_oneHot array2 (length (dirs st)) of
                               Inl err \<Rightarrow> catch_handler console2 (opened st) err
                             | Inr Y \<Rightarrow>
                                 (let console3 = console2 @
                                        [Log ''Images all converted to tensors:'',
                                         LogShape ''X'' (shape X), LogShape ''Y'' (shape Y)];
                                      XNORM = tf_div X 255
                                  in \<lparr>console = console3, reads = opened st,
                                      settled = Fulfilled (XNORM, Y, dirs st),
                                      exit_code = None\<rparr>))))))"

subsection \<open>learnTransferModel\<close>

text \<open>
  What one call leaves behind: the console, the files opened, the events sent through the
  socket, the values computed, the state of the returned promise and the exit code of the
  process when it was terminated.
\<close>

record run =
  run_console :: "console list"
  run_reads :: "string list"
  run_events :: "event list"
  run_dataset :: "(tensor \<times> tensor \<times> string list) option"
  run_features :: "tensor option"
  run_history :: "rat list"
  run_model :: "model option"
  run_promise :: "unit promise"
  run_exit :: "nat option"

text \<open>\<^verbatim>\<open>if (socket) { socket.emit(...) }\<close>\<close>

definition emit_if :: "socket option \<Rightarrow> event list \<Rightarrow> event list" where
  "emit_if socket evs = (case socket of None \<Rightarrow> [] | Some s \<Rightarrow> evs)"

definition onEpochEnd :: "socket option \<Rightarrow> nat \<Rightarrow> rat \<Rightarrow> console list \<times> event list" where
  "onEpochEnd socket epoch acc = ([LogEpoch epoch acc], emit_if socket [UpdateProgress epoch])"

text \<open>
  \<^verbatim>\<open>model.fit\<close> with \<^verbatim>\<open>epochs: n\<close>: for each epoch from 0, one pass over the data, then the
  callback. The result is the trained model, the accuracy of each epoch and what the
  callback returned at each call.
\<close>

fun fit_epochs ::
  "env \<Rightarrow> (nat \<Rightarrow> rat \<Rightarrow> 'a) \<Rightarrow> tensor \<Rightarrow> tensor \<Rightarrow> nat \<Rightarrow> nat \<Rightarrow> model \<Rightarrow> model \<times> rat list \<times> 'a list"
where
  "fit_epochs env callback x y epoch 0 m = (m, [], [])"
| "fit_epochs env callback x y epoch (Suc todo) m =
     (case fitEpoch env m x y of
        (m', acc) \<Rightarrow>
          (let called = callback epoch acc in
           case fit_epochs env callback x y (Suc epoch) todo m' of
             (m'', accs, calls) \<Rightarrow> (m'', acc # accs, called # calls)))"

definition tf_fit ::
  "env \<Rightarrow> model \<Rightarrow> tensor \<Rightarrow> tensor \<Rightarrow> nat \<Rightarrow> (nat \<Rightarrow> rat \<Rightarrow> 'a) \<Rightarrow> model \<times> rat list \<times> 'a list"
where
  "tf_fit env m x y epochs callback = fit_epochs env callback x y 0 epochs m"

definition model_url :: string where
  "model_url = ''https://www.kaggle.com/models/google/mobilenet-v2/TfJs/140-224-feature-vector/3''"

definition stopped ::
  "console list \<Rightarrow> string list \<Rightarrow> event list \<Rightarrow> (tensor \<times> tensor \<times> string list) option \<Rightarrow>
   unit promise \<Rightarrow> nat option \<Rightarrow> run"
where
  "stopped printed rd evs ds p code =
     \<lparr>run_console = printed, run_reads = rd, run_events = evs, run_dataset = ds,
      run_features = None, run_history = [], run_model = None,
      run_promise = p, run_exit = code\<rparr>"

definition learnTransferModel :: "env \<Rightarrow> string \<Rightarrow> socket option \<Rightarrow> run" where
  "learnTransferModel env folderPath socket =
     (let console0 = [Log ''Loading images - this may take a while...''];
          events0 = emit_if socket [LogEvent ''loading images''];
          loaded = folderToTensors env folderPath [224, 224];
          console1 = console0 @ console loaded
      in case exit_code loaded of
           Some code \<Rightarrow> stopped console1 (reads loaded) events0 None Pending (Some code)
         | None \<Rightarrow>
             (case settled loaded of
                Pending \<Rightarrow> stopped console1 (reads loaded) events0 None Pending None
              | Rejected reason \<Rightarrow>
                  stopped console1 (reads loaded) events0 None (Rejected reason) None
              | Fulfilled (X, Y, dirnames) \<Rightarrow>
                  (let console2 = console1 @ [Log ''Loading model''];
                       events2 = events0 @ emit_if socket [LogEvent ''loading model'']
                   in case loadGraphModel env model_url of
                        Inl err \<Rightarrow>
                          stopped console2 (reads loaded) events2 (Some (X, Y, dirnames))
                            (Rejected (Some err)) None
                      | Inr featureModel \<Rightarrow>
                          (let transferModel = sequential env (length dirnames);
                               console3 = console2 @
                                 [Log ''Creating features from images - this may take a while...''];
                               events3 = events2 @ emit_if socket [LogEvent ''creating features''];
                               featureX = featureModel X;
                               msg = ''Features stack '' @ shape_string (shape featureX);
                               console4 = console3 @ [Log msg];
                               events4 = events3 @ emit_if socket [LogEvent msg];
                               console5 = console4 @ [LogValue (evaluate env transferModel featureX Y)]
                           in case tf_fit env transferModel featureX Y 100 (onEpochEnd socket) of
                                (trained, history, called) \<Rightarrow>
                                  \<lparr>run_console =
                                     console5 @ concat (map fst called) @ [Log ''learned!''],
                                   run_reads = reads loaded,
                                   run_events =
                                     events4 @ concat (map snd called) @
                                     emit_if socket [LogEvent ''learned'', LearnCompleted],
                                   run_dataset = Some (X, Y, dirnames),
                                   run_features = Some featureX,
                                   run_history = history,
                                   run_model = Some trained,
                                   run_promise = Fulfilled (),
                                   run_exit = None\<rparr>))))"

subsection \<open>The paired Fisher--Yates shuffle as the specification words it\<close>

text \<open>Exchanging the elements at two positions of a list.\<close>

definition exchange :: "'a list \<Rightarrow> nat \<Rightarrow> nat \<Rightarrow> 'a list" where
  "exchange zs counter index = zs[counter := zs ! index, index := zs ! counter]"




text \<open>The same exchanges on one list (of pairs).\<close>

fun fisher_yates :: "nat list \<Rightarrow> nat \<Rightarrow> 'a list \<Rightarrow> 'a list" where
  "fisher_yates ds 0 zs = zs"
| "fisher_yates [] (Suc c) zs = zs"
| "fisher_yates (d # ds) (Suc c) zs = fisher_yates ds c (exchange zs (Suc c) d)"


subsection \<open>An invariant of the loader and a small file system\<close>

text \<open>
  What holds of \<^verbatim>\<open>dirs\<close> after the labels \<open>pre\<close> have been seen: it lists them without
  repetition, and the index of each is the number of distinct labels seen before its first
  occurrence.
\<close>

definition dirs_inv :: "string list \<Rightarrow> string list \<Rightarrow> bool" where
  "dirs_inv pre ds =
     (distinct ds \<and> set ds = set pre \<and>
      (\<forall>d \<in> set pre. js_indexOf ds d = int (card (set (takeWhile (\<lambda>l. l \<noteq> d) pre)))))"

text \<open>
  A concrete environment for examples. A file is a list of bytes; a file whose first byte is
  \<open>b\<close> decodes to the one-pixel image of grey level \<open>b\<close>, the empty file is not an image.
  Resizing a one-pixel image bilinearly gives the image of the requested size with the same
  value everywhere. \<open>fs\<close> lists the files in enumeration order.
\<close>

definition toy_decode :: "bytes \<Rightarrow> nat \<Rightarrow> error + tensor" where
  "toy_decode raw channels =
     (case raw of
        [] \<Rightarrow> Inl (DecodeError ''unsupported image format'')
      | b # bs \<Rightarrow> Inr \<lparr>shape = [1, 1, channels], vals = replicate channels (of_nat (unat b))\<rparr>)"

definition toy_resize :: "tensor \<Rightarrow> nat list \<Rightarrow> tensor" where
  "toy_resize t sz = \<lparr>shape = sz @ [3], vals = replicate (prod_list sz * 3) (hd (vals t))\<rparr>"

definition toy_featureModel :: "tensor \<Rightarrow> tensor" where
  "toy_featureModel x = \<lparr>shape = [hd (shape x), 1792], vals = []\<rparr>"

definition example_env :: "(string \<times> bytes) list \<Rightarrow> env" where
  "example_env fs =
     \<lparr>glob = (\<lambda>pattern. Inr (map fst fs)),
      readFileSync = (\<lambda>file. case map_of fs file of
                                None \<Rightarrow> Inl (FsError ''ENOENT'')
                              | Some raw \<Rightarrow> Inr raw),
      decodeImage = toy_decode,
      resizeBilinear = toy_resize,
      math_random = (\<lambda>k. 1 / 3),
      loadGraphModel = (\<lambda>url. Inr toy_featureModel),
      sequential = (\<lambda>units. replicate units 0),
      evaluate = (\<lambda>m x y. 0),
      fitEpoch = (\<lambda>m x y. (m, 1))\<rparr>"

text \<open>Three small folders: two white images, the example of the label order, a corrupt file.\<close>

definition white_files :: "(string \<times> bytes) list" where
  "white_files = [(''root/a/1.png'', [255]), (''root/b/2.png'', [255])]"

definition cat_files :: "(string \<times> bytes) list" where
  "cat_files = [(''catA/1.png'', [255]), (''catB/2.png'', [0]), (''catA/3.png'', [51])]"

definition corrupt_files :: "(string \<times> bytes) list" where
  "corrupt_files = [(''root/a/1.png'', [255]), (''root/b/2.png'', []), (''root/a/3.png'', [255])]"

definition cat_loader :: loader where
  "cat_loader =
     \<lparr>XS = [\<lparr>shape = [1, 1, 3], vals = [1, 1, 1]\<rparr>,
            \<lparr>shape = [1, 1, 3], vals = [0, 0, 0]\<rparr>,
            \<lparr>shape = [1, 1, 3], vals = [1 / 5, 1 / 5, 1 / 5]\<rparr>],
      YS = [0, 1, 0], dirs = [''catA'', ''catB''],
      opened = [''catA/1.png'', ''catB/2.png'', ''catA/3.png'']\<rparr>"

text \<open>An environment in which the enumeration itself fails.\<close>

definition unreadable_env :: env where
  "unreadable_env = (example_env [])\<lparr>glob := (\<lambda>pattern. Inl (GlobError ''EACCES''))\<rparr>"


text \<open>A folder whose two images have the same label.\<close>

definition one_label_files :: "(string \<times> bytes) list" where
  "one_label_files = [(''root/a/1.png'', [255]), (''root/a/2.png'', [0])]"

section \<open>Properties\<close>

subsection \<open>The shuffle\<close>

lemma rand_index_less:
  assumes "0 \<le> r" "r < 1" "0 < c"
  shows "rand_index r c < c"
proof -
  have "r * of_nat c < of_nat c" using assms by simp
  then have "\<lfloor>r * of_nat c\<rfloor> < int c" by (simp add: floor_less_iff)
  moreover have "0 \<le> \<lfloor>r * of_nat c\<rfloor>" using assms by simp
  ultimately show ?thesis unfolding rand_index_def by linarith
qed

lemma length_exchange: "length (exchange zs c i) = length zs"
  by (simp add: exchange_def)

lemma mset_exchange:
  "c < length zs \<Longrightarrow> i < length zs \<Longrightarrow> mset (exchange zs c i) = mset zs"
  unfolding exchange_def by (rule mset_swap)

lemma zip_exchange:
  "length a = length b \<Longrightarrow> c < length a \<Longrightarrow> i < length a \<Longrightarrow>
   zip (exchange a c i) (exchange b c i) = exchange (zip a b) c i"
  by (simp add: exchange_def zip_update)

lemma js_step_in_range:
  assumes "c < length a" "i < length a"
  shows "js_set (js_set a c (js_get a i)) i (js_get a c) = exchange a c i"
  using assms by (simp add: js_get_def js_set_def exchange_def)

lemma shuffleCombo_while_Suc:
  assumes "random_ok rnd" "length a = length b" "Suc c \<le> length a"
  shows "shuffleCombo_while rnd k (Suc c) a b =
         shuffleCombo_while rnd (Suc k) c
           (exchange a c (rand_index (rnd k) (Suc c)))
           (exchange b c (rand_index (rnd k) (Suc c)))"
proof -
  let ?i = "rand_index (rnd k) (Suc c)"
  have i: "?i < Suc c"
    using assms(1) by (intro rand_index_less) (simp_all add: random_ok_def)
  then have ia: "?i < length a" and ib: "?i < length b" using assms by simp_all
  have ca: "c < length a" and cb: "c < length b" using assms by simp_all
  show ?thesis
    by (simp add: Let_def js_step_in_range[OF ca ia] js_step_in_range[OF cb ib])
qed

lemma shuffleCombo_while_pairs:
  assumes "random_ok rnd" "length a = length b" "c \<le> length a"
  shows "length (fst (shuffleCombo_while rnd k c a b)) = length a \<and>
         length (snd (shuffleCombo_while rnd k c a b)) = length b \<and>
         mset (zip (fst (shuffleCombo_while rnd k c a b)) (snd (shuffleCombo_while rnd k c a b)))
           = mset (zip a b)"
  using assms
proof (induction c arbitrary: k a b)
  case 0
  then show ?case by simp
next
  case (Suc c)
  let ?i = "rand_index (rnd k) (Suc c)"
  have i: "?i < Suc c"
    using Suc.prems(1) by (intro rand_index_less) (simp_all add: random_ok_def)
  have step: "shuffleCombo_while rnd k (Suc c) a b =
      shuffleCombo_while rnd (Suc k) c (exchange a c ?i) (exchange b c ?i)"
    using Suc.prems by (rule shuffleCombo_while_Suc)
  have len: "length (exchange a c ?i) = length (exchange b c ?i)"
    using Suc.prems by (simp add: length_exchange)
  have le: "c \<le> length (exchange a c ?i)"
    using Suc.prems by (simp add: length_exchange)
  have z: "mset (zip (exchange a c ?i) (exchange b c ?i)) = mset (zip a b)"
    using Suc.prems i by (simp add: zip_exchange mset_exchange)
  from Suc.IH[OF Suc.prems(1) len le, of "Suc k"] show ?case
    unfolding step by (simp add: length_exchange z)
qed







lemma length_fisher_yates: "length (fisher_yates ds c zs) = length zs"
  by (induction ds c zs rule: fisher_yates.induct) (simp_all add: length_exchange)











text \<open>
  Claim C3. For two arrays of equal length, of any length, and a random source within its
  contract, \<^verbatim>\<open>shuffleCombo\<close> leaves both lengths unchanged, the pairs of the output are
  a permutation of the pairs of the input, and at every index the output holds an image
  together with the label it had in the input.
\<close>

theorem shuffleCombo_pairing:
  assumes "random_ok rnd" and "length array = length array2"
  shows "case shuffleCombo rnd array array2 of
           (printed, out, out2) \<Rightarrow>
             length out = length array \<and> length out2 = length array2 \<and>
             mset (zip out out2) = mset (zip array array2) \<and>
             (\<forall>i<length array. (out ! i, out2 ! i) \<in> set (zip array array2))"
proof -
  obtain out out2 where w: "shuffleCombo_while rnd 0 (length array) array array2 = (out, out2)"
    by (cases "shuffleCombo_while rnd 0 (length array) array array2")
  from shuffleCombo_while_pairs[OF assms order_refl, of 0]
  have l: "length out = length array" and l2: "length out2 = length array2"
    and m: "mset (zip out out2) = mset (zip array array2)"
    by (simp_all add: w)
  have "\<forall>i<length array. (out ! i, out2 ! i) \<in> set (zip array array2)"
  proof (intro allI impI)
    fix i assume i: "i < length array"
    then have "zip out out2 ! i \<in> set (zip out out2)"
      using l l2 assms(2) by (intro nth_mem) simp
    moreover have "set (zip out out2) = set (zip array array2)"
      using m by (rule mset_eq_setD)
    ultimately show "(out ! i, out2 ! i) \<in> set (zip array array2)"
      using i l l2 assms(2) by simp
  qed
  with l l2 m show ?thesis by (simp add: shuffleCombo_def w)
qed

theorem shuffleCombo_pairing_witness:
  "random_ok (\<lambda>k. 1 / 3) \<and>
   length [Some (1::nat), Some 2, Some 3] = length [Some ''a'', Some ''b'', Some ''c''] \<and>
   shuffleCombo (\<lambda>k. 1 / 3) [Some (1::nat), Some 2, Some 3] [Some ''a'', Some ''b'', Some ''c'']
     = ([], [Some 3, Some 1, Some 2], [Some ''c'', Some ''a'', Some ''b'']) \<and>
   length [Some (3::nat), Some 1, Some 2] = length [Some (1::nat), Some 2, Some 3] \<and>
   length [Some ''c'', Some ''a'', Some ''b''] = length [Some ''a'', Some ''b'', Some ''c''] \<and>
   mset (zip [Some (3::nat), Some 1, Some 2] [Some ''c'', Some ''a'', Some ''b'']) =
     mset (zip [Some (1::nat), Some 2, Some 3] [Some ''a'', Some ''b'', Some ''c'']) \<and>
   ([Some (3::nat), Some 1, Some 2] ! 0, [Some ''c'', Some ''a'', Some ''b''] ! 0) \<in>
     set (zip [Some (1::nat), Some 2, Some 3] [Some ''a'', Some ''b'', Some ''c''])"
proof -
  have h1: "random_ok (\<lambda>k. 1 / 3)" by (simp add: random_ok_def)
  have h2: "length [Some (1::nat), Some 2, Some 3] = length [Some ''a'', Some ''b'', Some ''c'']"
    by simp
  have ev: "shuffleCombo (\<lambda>k. 1 / 3) [Some (1::nat), Some 2, Some 3]
      [Some ''a'', Some ''b'', Some ''c'']
     = ([], [Some 3, Some 1, Some 2], [Some ''c'', Some ''a'', Some ''b''])"
    by code_simp
  have i: "0 < length [Some (1::nat), Some 2, Some 3]" by simp
  note t = shuffleCombo_pairing[OF h1 h2, unfolded ev prod.case]
  note c = t[THEN conjunct2, THEN conjunct2, THEN conjunct2, THEN spec, THEN mp, OF i]
  show ?thesis
    by (intro conjI h1 h2 ev t[THEN conjunct1] t[THEN conjunct2, THEN conjunct1]
          t[THEN conjunct2, THEN conjunct2, THEN conjunct1] c)
qed





subsection \<open>The loop over the files\<close>

lemma js_indexOf_absent: "x \<notin> set xs \<Longrightarrow> js_indexOf xs x = - 1"
  by (induction xs) (auto simp: Let_def)

lemma takeWhile_snoc_new: "x \<notin> set xs \<Longrightarrow> takeWhile (\<lambda>y. y \<noteq> x) (xs @ [x]) = xs"
  by (induction xs) auto

lemma takeWhile_until_less:
  "x \<in> set xs \<Longrightarrow> length (takeWhile (\<lambda>y. y \<noteq> x) xs) < length xs"
  by (induction xs) auto

lemma js_indexOf_present:
  "x \<in> set xs \<Longrightarrow> js_indexOf xs x = int (length (takeWhile (\<lambda>y. y \<noteq> x) xs))"
  by (induction xs) (auto simp: Let_def)

lemma js_indexOf_append:
  "x \<in> set xs \<Longrightarrow> js_indexOf (xs @ ys) x = js_indexOf xs x"
  by (simp add: js_indexOf_present)

lemma js_indexOf_snoc_new:
  "x \<notin> set xs \<Longrightarrow> js_indexOf (xs @ [x]) x = int (length xs)"
  by (simp add: js_indexOf_present takeWhile_snoc_new)

lemma js_indexOf_nth:
  assumes "x \<in> set xs"
  shows "0 \<le> js_indexOf xs x \<and> js_indexOf xs x < int (length xs) \<and> xs ! nat (js_indexOf xs x) = x"
proof -
  let ?n = "length (takeWhile (\<lambda>y. y \<noteq> x) xs)"
  have lt: "?n < length xs"
    using assms by (rule takeWhile_until_less)
  then have "\<not> (xs ! ?n \<noteq> x)" by (rule nth_length_takeWhile)
  with lt show ?thesis by (simp add: js_indexOf_present[OF assms])
qed

lemma dirs_inv_step:
  assumes "dirs_inv pre ds"
  shows "dirs_inv (pre @ [l]) (if \<not> js_includes ds l then ds @ [l] else ds)"
proof (cases "l \<in> set ds")
  case True
  then have lp: "l \<in> set pre" using assms by (simp add: dirs_inv_def)
  have "\<forall>d \<in> set pre. takeWhile (\<lambda>l. l \<noteq> d) (pre @ [l]) = takeWhile (\<lambda>l. l \<noteq> d) pre"
    by simp
  then show ?thesis
    using assms True lp by (auto simp: dirs_inv_def js_includes_def)
next
  case False
  then have lp: "l \<notin> set pre" using assms by (simp add: dirs_inv_def)
  have old: "\<forall>d \<in> set pre. takeWhile (\<lambda>l. l \<noteq> d) (pre @ [l]) = takeWhile (\<lambda>l. l \<noteq> d) pre"
    by simp
  have new: "takeWhile (\<lambda>x. x \<noteq> l) (pre @ [l]) = pre"
    using lp by (rule takeWhile_snoc_new)
  have len: "length ds = card (set pre)"
    using assms by (metis dirs_inv_def distinct_card)
  have a: "\<forall>d \<in> set pre. js_indexOf (ds @ [l]) d = int (card (set (takeWhile (\<lambda>l. l \<noteq> d) (pre @ [l]))))"
    using assms old by (simp add: dirs_inv_def js_indexOf_append)
  have b: "js_indexOf (ds @ [l]) l = int (card (set (takeWhile (\<lambda>x. x \<noteq> l) (pre @ [l]))))"
    using False by (simp add: js_indexOf_snoc_new new len)
  have c: "distinct (ds @ [l])" "set (ds @ [l]) = set (pre @ [l])"
    using assms False by (auto simp: dirs_inv_def)
  show ?thesis
    using False a b c unfolding dirs_inv_def[of "pre @ [l]"] by (simp add: js_includes_def)
qed

lemma forEach_body_Inr:
  assumes "forEach_body env imsize st file = Inr st'"
  shows "\<exists>t. fileToTensor env file imsize = Inr t \<and>
             dirs st' = (if \<not> js_includes (dirs st) (label_of file)
                         then dirs st @ [label_of file] else dirs st) \<and>
             YS st' = YS st @ [js_indexOf (dirs st') (label_of file)] \<and>
             XS st' = XS st @ [t] \<and>
             opened st' = opened st @ [file]"
  using assms by (auto simp: forEach_body_def Let_def split: sum.splits)

lemma forEach_body_Inl:
  assumes "forEach_body env imsize st file = Inl (e, st')"
  shows "fileToTensor env file imsize = Inl e \<and> opened st' = opened st @ [file]"
  using assms by (auto simp: forEach_body_def Let_def split: sum.splits)

lemma forEach_lengths:
  "forEach env imsize files st = Inr st' \<Longrightarrow>
   length (XS st') = length (XS st) + length files \<and>
   length (YS st') = length (YS st) + length files \<and>
   opened st' = opened st @ files"
proof (induction files arbitrary: st)
  case Nil
  then show ?case by simp
next
  case (Cons f files)
  then obtain st1 where b: "forEach_body env imsize st f = Inr st1"
    and r: "forEach env imsize files st1 = Inr st'"
    by (auto split: sum.splits)
  from forEach_body_Inr[OF b] Cons.IH[OF r] show ?case by auto
qed

lemma forEach_labels:
  "forEach env imsize files st = Inr st' \<Longrightarrow> dirs_inv pre (dirs st) \<Longrightarrow>
   YS st = map (js_indexOf (dirs st)) pre \<Longrightarrow>
   dirs_inv (pre @ map label_of files) (dirs st') \<and>
   YS st' = map (js_indexOf (dirs st')) (pre @ map label_of files)"
proof (induction files arbitrary: st pre)
  case Nil
  then show ?case by simp
next
  case (Cons f files)
  then obtain st1 where b: "forEach_body env imsize st f = Inr st1"
    and r: "forEach env imsize files st1 = Inr st'"
    by (auto split: sum.splits)
  from forEach_body_Inr[OF b]
  have d1: "dirs st1 = (if \<not> js_includes (dirs st) (label_of f)
                         then dirs st @ [label_of f] else dirs st)"
    and y1: "YS st1 = YS st @ [js_indexOf (dirs st1) (label_of f)]" by auto
  have inv1: "dirs_inv (pre @ [label_of f]) (dirs st1)"
    unfolding d1 using Cons.prems(2) by (rule dirs_inv_step)
  have stable: "\<forall>l \<in> set pre. js_indexOf (dirs st1) l = js_indexOf (dirs st) l"
    using Cons.prems(2) by (auto simp: d1 dirs_inv_def js_indexOf_append)
  have ys1: "YS st1 = map (js_indexOf (dirs st1)) (pre @ [label_of f])"
    using y1 Cons.prems(3) stable by simp
  from Cons.IH[OF r inv1 ys1] show ?case by simp
qed

lemma forEach_fail:
  "forEach env imsize files st = Inl (e, st') \<Longrightarrow>
   \<exists>k<length files. fileToTensor env (files ! k) imsize = Inl e \<and>
      (\<forall>j<k. \<not> isl (fileToTensor env (files ! j) imsize)) \<and>
      opened st' = opened st @ take (Suc k) files"
proof (induction files arbitrary: st)
  case Nil
  then show ?case by simp
next
  case (Cons f files)
  show ?case
  proof (cases "forEach_body env imsize st f")
    case (Inl thrown)
    with Cons.prems have "thrown = (e, st')" by simp
    with Inl forEach_body_Inl[of env imsize st f e st']
    have "fileToTensor env f imsize = Inl e" "opened st' = opened st @ [f]" by simp_all
    then show ?thesis by (intro exI[of _ 0]) simp
  next
    case (Inr st1)
    with Cons.prems have r: "forEach env imsize files st1 = Inl (e, st')" by simp
    from Cons.IH[OF r] obtain k where k: "k < length files"
      "fileToTensor env (files ! k) imsize = Inl e"
      "\<forall>j<k. \<not> isl (fileToTensor env (files ! j) imsize)"
      "opened st' = opened st1 @ take (Suc k) files" by blast
    from forEach_body_Inr[OF Inr] have f: "\<not> isl (fileToTensor env f imsize)"
      "opened st1 = opened st @ [f]" by auto
    have "\<forall>j<Suc k. \<not> isl (fileToTensor env ((f # files) ! j) imsize)"
      using k(3) f(1) by (auto simp: less_Suc_eq_0_disj)
    then show ?thesis
      using k f by (intro exI[of _ "Suc k"]) simp
  qed
qed

lemma forEach_all_ok:
  "forEach env imsize files st = Inr st' \<Longrightarrow> \<forall>f \<in> set files. \<not> isl (fileToTensor env f imsize)"
proof (induction files arbitrary: st)
  case Nil
  then show ?case by simp
next
  case (Cons f files)
  then obtain st1 where b: "forEach_body env imsize st f = Inr st1"
    and r: "forEach env imsize files st1 = Inr st'"
    by (auto split: sum.splits)
  from forEach_body_Inr[OF b] Cons.IH[OF r] show ?case by auto
qed

subsection \<open>The outcomes of folderToTensors\<close>

lemma folderToTensors_glob_fail:
  "glob env (glob_pattern dirPath) = Inl err \<Longrightarrow>
   folderToTensors env dirPath imsize = catch_handler [Log ''Identifying Image List''] [] err"
  by (simp add: folderToTensors_def)

lemma folderToTensors_forEach_fail:
  "glob env (glob_pattern dirPath) = Inr files \<Longrightarrow>
   forEach env imsize files init_loader = Inl (err, st) \<Longrightarrow>
   folderToTensors env dirPath imsize =
     catch_handler
       [Log ''Identifying Image List'',
        Log (string_of_nat (length files) @ '' Files Found''),
        Log ''Now converting to tensors'']
       (opened st) err"
  by (simp add: folderToTensors_def)

lemma folderToTensors_FulfilledD:
  assumes "settled (folderToTensors env dirPath imsize) = Fulfilled (XNORM, Y, dirnames)"
  shows "\<exists>files st printed array array2 X.
           glob env (glob_pattern dirPath) = Inr files \<and>
           forEach env imsize files init_loader = Inr st \<and>
           shuffleCombo (math_random env) (map Some (XS st)) (map Some (YS st))
             = (printed, array, array2) \<and>
           tf_stack array = Inr X \<and>
           tf_oneHot array2 (length (dirs st)) = Inr Y \<and>
           XNORM = tf_div X 255 \<and> dirnames = dirs st \<and>
           reads (folderToTensors env dirPath imsize) = files \<and>
           exit_code (folderToTensors env dirPath imsize) = None"
proof (cases "glob env (glob_pattern dirPath)")
  case (Inl err)
  with assms show ?thesis by (simp add: folderToTensors_glob_fail catch_handler_def)
next
  case files: (Inr files)
  show ?thesis
  proof (cases "forEach env imsize files init_loader")
    case (Inl thrown)
    obtain err st where "thrown = (err, st)" by (cases thrown)
    with assms files Inl show ?thesis
      by (simp add: folderToTensors_forEach_fail catch_handler_def)
  next
    case st: (Inr st)
    obtain printed array array2 where
      sh: "shuffleCombo (math_random env) (map Some (XS st)) (map Some (YS st))
             = (printed, array, array2)"
      by (cases "shuffleCombo (math_random env) (map Some (XS st)) (map Some (YS st))")
    have op: "opened st = files" using forEach_lengths[OF st] by (simp add: init_loader_def)
    show ?thesis
    proof (cases "tf_stack array")
      case (Inl err)
      with assms files st sh show ?thesis
        by (simp add: folderToTensors_def catch_handler_def)
    next
      case X: (Inr X)
      show ?thesis
      proof (cases "tf_oneHot array2 (length (dirs st))")
        case (Inl err)
        with assms files st sh X show ?thesis
          by (simp add: folderToTensors_def catch_handler_def)
      next
        case (Inr Y')
        with assms files st sh X op show ?thesis
          by (simp add: folderToTensors_def Let_def)
      qed
    qed
  qed
qed

lemma folderToTensors_outcomes:
  "(settled (folderToTensors env dirPath imsize) = Rejected None \<and>
    exit_code (folderToTensors env dirPath imsize) = Some 1) \<or>
   (\<exists>v. settled (folderToTensors env dirPath imsize) = Fulfilled v \<and>
        exit_code (folderToTensors env dirPath imsize) = None)"
  by (simp add: folderToTensors_def catch_handler_def Let_def split: sum.splits prod.splits)

lemma folderToTensors_console:
  "AssertionFailed \<notin> set (console (folderToTensors env dirPath imsize))"
proof (cases "glob env (glob_pattern dirPath)")
  case (Inl err)
  then show ?thesis by (simp add: folderToTensors_glob_fail catch_handler_def)
next
  case files: (Inr files)
  show ?thesis
  proof (cases "forEach env imsize files init_loader")
    case (Inl thrown)
    obtain err st where "thrown = (err, st)" by (cases thrown)
    with files Inl show ?thesis
      by (simp add: folderToTensors_forEach_fail catch_handler_def)
  next
    case st: (Inr st)
    have "length (XS st) = length (YS st)"
      using forEach_lengths[OF st] by (simp add: init_loader_def)
    then have "\<exists>array array2.
        shuffleCombo (math_random env) (map Some (XS st)) (map Some (YS st)) = ([], array, array2)"
      by (cases "shuffleCombo_while (math_random env) 0 (length (XS st))
                   (map Some (XS st)) (map Some (YS st))")
         (simp add: shuffleCombo_def)
    then obtain array array2 where
      "shuffleCombo (math_random env) (map Some (XS st)) (map Some (YS st)) = ([], array, array2)"
      by blast
    with files st show ?thesis
      by (simp add: folderToTensors_def catch_handler_def Let_def split: sum.splits)
  qed
qed

subsection \<open>Two white images\<close>

lemma toy_fileToTensor:
  "map_of fs f = Some (b # bs) \<Longrightarrow>
   fileToTensor (example_env fs) f sz =
     Inr \<lparr>shape = sz @ [3], vals = replicate (prod_list sz * 3) (of_nat (unat b) / 255)\<rparr>"
  by (simp add: fileToTensor_def example_env_def toy_decode_def toy_resize_def tf_div_def
        tf_cast_float32_def)

lemma labels_ab: "label_of ''root/a/1.png'' = ''a''" "label_of ''root/b/2.png'' = ''b''"
  by (simp_all add: label_of_def path_basename_def path_dirname_def)

lemma white_forEach:
  "forEach (example_env white_files) [224, 224]
     [''root/a/1.png'', ''root/b/2.png''] init_loader =
   Inr \<lparr>XS = [\<lparr>shape = [224, 224, 3], vals = replicate 150528 1\<rparr>,
              \<lparr>shape = [224, 224, 3], vals = replicate 150528 1\<rparr>],
        YS = [0, 1], dirs = [''a'', ''b''],
        opened = [''root/a/1.png'', ''root/b/2.png'']\<rparr>"
  by (simp add: forEach_body_def toy_fileToTensor labels_ab init_loader_def js_includes_def
        white_files_def)

lemma shuffle_two:
  "shuffleCombo (\<lambda>k. 1 / 3) [Some a, Some b] [Some c, Some d] = ([], [Some b, Some a], [Some d, Some c])"
  by (simp add: shuffleCombo_def rand_index_def js_get_def js_set_def Let_def numeral_2_eq_2)

lemma white_folderToTensors:
  "folderToTensors (example_env white_files) ''root'' [224, 224] =
   \<lparr>console = [Log ''Identifying Image List'', Log ''2 Files Found'', Log ''Now converting to tensors'',
       Log ''Stacking'', Log ''Images all converted to tensors:'',
       LogShape ''X'' [2, 224, 224, 3], LogShape ''Y'' [2, 2]],
    reads = [''root/a/1.png'', ''root/b/2.png''],
    settled = Fulfilled
      (\<lparr>shape = [2, 224, 224, 3], vals = replicate 150528 (1 / 255) @ replicate 150528 (1 / 255)\<rparr>,
       \<lparr>shape = [2, 2], vals = [0, 1, 1, 0]\<rparr>, [''a'', ''b'']),
    exit_code = None\<rparr>"
proof -
  have g: "glob (example_env white_files) (glob_pattern ''root'')
      = Inr [''root/a/1.png'', ''root/b/2.png'']"
    by (simp add: example_env_def white_files_def)
  have r: "math_random (example_env white_files) = (\<lambda>k. 1 / 3)"
    by (simp add: example_env_def)
  have n: "string_of_nat (Suc (Suc 0)) = ''2''" by code_simp
  have s: "shuffleCombo (\<lambda>k. 1 / 3)
      [Some \<lparr>shape = [224, 224, 3], vals = replicate 150528 (1::rat)\<rparr>,
       Some \<lparr>shape = [224, 224, 3], vals = replicate 150528 1\<rparr>] [Some (0::int), Some 1] =
     ([], [Some \<lparr>shape = [224, 224, 3], vals = replicate 150528 1\<rparr>,
           Some \<lparr>shape = [224, 224, 3], vals = replicate 150528 1\<rparr>], [Some 1, Some 0])"
    by (rule shuffle_two)
  have st: "tf_stack [Some \<lparr>shape = [224, 224, 3], vals = replicate 150528 1\<rparr>,
           Some \<lparr>shape = [224, 224, 3], vals = replicate 150528 1\<rparr>] =
     Inr \<lparr>shape = [2, 224, 224, 3], vals = replicate 150528 1 @ replicate 150528 1\<rparr>"
    by (simp add: tf_stack_def)
  have oh: "tf_oneHot [Some 1, Some 0] (Suc (Suc 0)) = Inr \<lparr>shape = [2, 2], vals = [0, 1, 1, 0]\<rparr>"
    by code_simp
  have dv: "tf_div \<lparr>shape = [2, 224, 224, 3], vals = replicate 150528 1 @ replicate 150528 1\<rparr> 255
      = \<lparr>shape = [2, 224, 224, 3], vals = replicate 150528 (1 / 255) @ replicate 150528 (1 / 255)\<rparr>"
    by (simp add: tf_div_def)
  show ?thesis
    by (simp add: folderToTensors_def g white_forEach r s st oh dv n Let_def del: forEach.simps)
qed

subsection \<open>Training and its events\<close>

lemma fit_epochs_results:
  "fst (fit_epochs env callback x y epoch todo m) = fst (fit_epochs env callback' x y epoch todo m) \<and>
   fst (snd (fit_epochs env callback x y epoch todo m)) =
     fst (snd (fit_epochs env callback' x y epoch todo m)) \<and>
   length (fst (snd (fit_epochs env callback x y epoch todo m))) = todo \<and>
   snd (snd (fit_epochs env callback x y epoch todo m)) =
     map (\<lambda>(k, acc). callback k acc)
       (zip [epoch..<epoch + todo] (fst (snd (fit_epochs env callback x y epoch todo m))))"
proof (induction todo arbitrary: epoch m)
  case 0
  then show ?case by simp
next
  case (Suc todo)
  obtain m' acc where e: "fitEpoch env m x y = (m', acc)" by (cases "fitEpoch env m x y")
  obtain m2 accs calls where r: "fit_epochs env callback x y (Suc epoch) todo m' = (m2, accs, calls)"
    by (cases "fit_epochs env callback x y (Suc epoch) todo m'") auto
  obtain m3 accs' calls' where r': "fit_epochs env callback' x y (Suc epoch) todo m' = (m3, accs', calls')"
    by (cases "fit_epochs env callback' x y (Suc epoch) todo m'") auto
  note ih0 = Suc.IH[of "Suc epoch" m', unfolded r r' fst_conv snd_conv]
  have ih: "m2 = m3" "accs = accs'" "length accs = todo"
    "calls = map (\<lambda>(k, acc). callback k acc) (zip [Suc epoch..<Suc epoch + todo] accs)"
    using ih0 by blast+
  have u: "[epoch..<epoch + Suc todo] = epoch # [Suc epoch..<Suc epoch + todo]"
    by (simp add: upt_conv_Cons del: upt_Suc)
  have l: "fit_epochs env callback x y epoch (Suc todo) m =
      (m2, acc # accs, callback epoch acc # calls)"
    by (simp add: e r)
  have l': "fit_epochs env callback' x y epoch (Suc todo) m =
      (m3, acc # accs', callback' epoch acc # calls')"
    by (simp add: e r')
  show ?case
    unfolding l l' u fst_conv snd_conv using ih by (simp del: upt_Suc)
qed

lemma onEpochEnd_console:
  "map fst (map (\<lambda>(k, acc). onEpochEnd socket k acc) zs) = map (\<lambda>(k, acc). [LogEpoch k acc]) zs"
  by (induction zs) (auto simp: onEpochEnd_def)


lemma onEpochEnd_events_absent:
  "concat (map snd (map (\<lambda>(k, acc). onEpochEnd None k acc) zs)) = []"
  by (induction zs) (auto simp: onEpochEnd_def emit_if_def)

lemma learnTransferModel_exited:
  assumes "exit_code (folderToTensors env folderPath [224, 224]) = Some code"
  shows "learnTransferModel env folderPath socket =
         stopped (Log ''Loading images - this may take a while...'' #
                    console (folderToTensors env folderPath [224, 224]))
           (reads (folderToTensors env folderPath [224, 224]))
           (emit_if socket [LogEvent ''loading images'']) None Pending (Some code)"
  using assms by (simp add: learnTransferModel_def Let_def)

lemma learnTransferModel_load_failed:
  assumes "exit_code (folderToTensors env folderPath [224, 224]) = None"
    and "settled (folderToTensors env folderPath [224, 224]) = Fulfilled (X, Y, dirnames)"
    and "loadGraphModel env model_url = Inl err"
  shows "learnTransferModel env folderPath socket =
         stopped (Log ''Loading images - this may take a while...'' #
                    console (folderToTensors env folderPath [224, 224]) @ [Log ''Loading model''])
           (reads (folderToTensors env folderPath [224, 224]))
           (emit_if socket [LogEvent ''loading images''] @ emit_if socket [LogEvent ''loading model''])
           (Some (X, Y, dirnames)) (Rejected (Some err)) None"
  using assms by (simp add: learnTransferModel_def Let_def)

lemma learnTransferModel_trained:
  assumes "exit_code (folderToTensors env folderPath [224, 224]) = None"
    and "settled (folderToTensors env folderPath [224, 224]) = Fulfilled (X, Y, dirnames)"
    and "loadGraphModel env model_url = Inr featureModel"
    and "tf_fit env (sequential env (length dirnames)) (featureModel X) Y 100 (onEpochEnd socket)
           = (trained, history, called)"
  shows "learnTransferModel env folderPath socket =
         \<lparr>run_console =
            Log ''Loading images - this may take a while...'' #
            console (folderToTensors env folderPath [224, 224]) @
            [Log ''Loading model'',
             Log ''Creating features from images - this may take a while...'',
             Log (''Features stack '' @ shape_string (shape (featureModel X))),
             LogValue (evaluate env (sequential env (length dirnames)) (featureModel X) Y)] @
            concat (map fst called) @ [Log ''learned!''],
          run_reads = reads (folderToTensors env folderPath [224, 224]),
          run_events =
            emit_if socket [LogEvent ''loading images''] @
            emit_if socket [LogEvent ''loading model''] @
            emit_if socket [LogEvent ''creating features''] @
            emit_if socket [LogEvent (''Features stack '' @ shape_string (shape (featureModel X)))] @
            concat (map snd called) @
            emit_if socket [LogEvent ''learned'', LearnCompleted],
          run_dataset = Some (X, Y, dirnames),
          run_features = Some (featureModel X),
          run_history = history,
          run_model = Some trained,
          run_promise = Fulfilled (),
          run_exit = None\<rparr>"
  using assms by (simp add: learnTransferModel_def Let_def)

lemma learnTransferModel_dataset:
  assumes "exit_code (folderToTensors env folderPath [224, 224]) = None"
    and "settled (folderToTensors env folderPath [224, 224]) = Fulfilled d"
  shows "run_dataset (learnTransferModel env folderPath socket) = Some d"
proof -
  obtain X Y dirnames where d: "d = (X, Y, dirnames)" by (cases d)
  show ?thesis
  proof (cases "loadGraphModel env model_url")
    case (Inl err)
    from learnTransferModel_load_failed[OF assms(1) assms(2)[unfolded d] Inl, of socket]
    show ?thesis by (simp add: stopped_def d)
  next
    case (Inr featureModel)
    obtain trained history called where
      f: "tf_fit env (sequential env (length dirnames)) (featureModel X) Y 100 (onEpochEnd socket)
            = (trained, history, called)"
      by (cases "tf_fit env (sequential env (length dirnames)) (featureModel X) Y 100
                   (onEpochEnd socket)")
    from learnTransferModel_trained[OF assms(1) assms(2)[unfolded d] Inr f]
    show ?thesis by (simp add: d)
  qed
qed

subsection \<open>The assertion and the label indices\<close>

lemma shuffleCombo_result:
  assumes "random_ok rnd" and "length a = length b"
    and "shuffleCombo rnd a b = (printed, out, out2)"
  shows "printed = [] \<and> length out = length a \<and> length out2 = length b \<and>
         mset (zip out out2) = mset (zip a b)"
proof -
  from assms(3) have w: "shuffleCombo_while rnd 0 (length a) a b = (out, out2)"
    and p: "printed = []"
    using assms(2) by (simp_all add: shuffleCombo_def)
  from shuffleCombo_while_pairs[OF assms(1,2) order_refl, of 0] p show ?thesis
    by (simp add: w)
qed

text \<open>
  Claim C8. Each enumerated file appends one element to \<^verbatim>\<open>XS\<close> and one to \<^verbatim>\<open>YS\<close>, so the
  two arrays have the length of the enumeration when \<^verbatim>\<open>shuffleCombo\<close> is called, its
  assertion prints nothing, and no run of \<^verbatim>\<open>folderToTensors\<close> has a failed assertion on
  its console.
\<close>

theorem shuffleCombo_assertion_unreachable:
  "AssertionFailed \<notin> set (console (folderToTensors env dirPath imsize)) \<and>
   (\<forall>files st. forEach env imsize files init_loader = Inr st \<longrightarrow>
      length (XS st) = length files \<and> length (YS st) = length files \<and>
      fst (shuffleCombo (math_random env) (map Some (XS st)) (map Some (YS st))) = [])"
proof (intro conjI allI impI)
  show "AssertionFailed \<notin> set (console (folderToTensors env dirPath imsize))"
    by (rule folderToTensors_console)
next
  fix files st assume st: "forEach env imsize files init_loader = Inr st"
  from forEach_lengths[OF st]
  show x: "length (XS st) = length files" and y: "length (YS st) = length files"
    by (simp_all add: init_loader_def)
  from x y show "fst (shuffleCombo (math_random env) (map Some (XS st)) (map Some (YS st))) = []"
    by (simp add: shuffleCombo_def)
qed

lemma cat_forEach:
  "forEach (example_env cat_files) [1, 1] [''catA/1.png'', ''catB/2.png'', ''catA/3.png''] init_loader =
   Inr cat_loader"
  unfolding cat_loader_def by code_simp

theorem shuffleCombo_assertion_unreachable_witness:
  "forEach (example_env cat_files) [1, 1] [''catA/1.png'', ''catB/2.png'', ''catA/3.png''] init_loader =
     Inr cat_loader \<and>
   (length (XS cat_loader) = length [''catA/1.png'', ''catB/2.png'', ''catA/3.png''] \<and>
    length (YS cat_loader) = length [''catA/1.png'', ''catB/2.png'', ''catA/3.png''] \<and>
    fst (shuffleCombo (math_random (example_env cat_files))
          (map Some (XS cat_loader)) (map Some (YS cat_loader))) = []) \<and>
   AssertionFailed \<notin> set (console (folderToTensors (example_env cat_files) ''.'' [1, 1])) \<and>
   fst (shuffleCombo (\<lambda>k. 1 / 3) [Some (1::nat)] ([] :: nat js_array)) = [AssertionFailed]"
proof -
  note t = shuffleCombo_assertion_unreachable[of "example_env cat_files" "''.''" "[1, 1]"]
  have a: "AssertionFailed \<notin> set (console (folderToTensors (example_env cat_files) ''.'' [1, 1]))"
    using t by (rule conjunct1)
  have b: "fst (shuffleCombo (\<lambda>k. 1 / 3) [Some (1::nat)] ([] :: nat js_array)) = [AssertionFailed]"
    by (simp add: shuffleCombo_def)
  note c = t[THEN conjunct2, THEN spec, THEN spec, THEN mp, OF cat_forEach]
  show ?thesis by (intro conjI cat_forEach a b c[THEN conjunct1] c[THEN conjunct2, THEN conjunct1]
        c[THEN conjunct2, THEN conjunct2])
qed

text \<open>
  Claim C6. After the loop over the enumerated files, \<^verbatim>\<open>dirs\<close> lists the label names
  without repetition, the index stored for a file is the position of its label in \<^verbatim>\<open>dirs\<close>,
  and that position is the number of distinct labels that appear in the enumeration before
  the first file of this label: labels are numbered in the order in which they are first
  seen, however many files each has.
\<close>

theorem label_index_first_seen:
  assumes "forEach env imsize files init_loader = Inr st"
  shows "distinct (dirs st) \<and> set (dirs st) = set (map label_of files) \<and>
         length (YS st) = length files \<and>
         (\<forall>i<length files.
            YS st ! i = js_indexOf (dirs st) (label_of (files ! i)) \<and>
            YS st ! i =
              int (card (set (takeWhile (\<lambda>l. l \<noteq> label_of (files ! i)) (map label_of files)))) \<and>
            dirs st ! nat (YS st ! i) = label_of (files ! i))"
proof -
  have i0: "dirs_inv [] (dirs init_loader)" by (simp add: dirs_inv_def init_loader_def)
  have y0: "YS init_loader = map (js_indexOf (dirs init_loader)) []" by (simp add: init_loader_def)
  from forEach_labels[OF assms i0 y0]
  have inv: "dirs_inv (map label_of files) (dirs st)"
    and ys: "YS st = map (js_indexOf (dirs st)) (map label_of files)" by simp_all
  have d: "distinct (dirs st)" and s: "set (dirs st) = set (map label_of files)"
    using inv by (simp_all add: dirs_inv_def)
  have l: "length (YS st) = length files" using ys by simp
  have "\<forall>i<length files.
      YS st ! i = js_indexOf (dirs st) (label_of (files ! i)) \<and>
      YS st ! i =
        int (card (set (takeWhile (\<lambda>l. l \<noteq> label_of (files ! i)) (map label_of files)))) \<and>
      dirs st ! nat (YS st ! i) = label_of (files ! i)"
  proof (intro allI impI)
    fix i assume i: "i < length files"
    then have m: "label_of (files ! i) \<in> set (map label_of files)" by simp
    have a: "YS st ! i = js_indexOf (dirs st) (label_of (files ! i))" using ys i by simp
    have b: "js_indexOf (dirs st) (label_of (files ! i)) =
        int (card (set (takeWhile (\<lambda>l. l \<noteq> label_of (files ! i)) (map label_of files))))"
      using inv m unfolding dirs_inv_def by blast
    have "label_of (files ! i) \<in> set (dirs st)" using m s by simp
    from js_indexOf_nth[OF this] have c: "dirs st ! nat (YS st ! i) = label_of (files ! i)"
      using a by simp
    from a b c show "YS st ! i = js_indexOf (dirs st) (label_of (files ! i)) \<and>
      YS st ! i =
        int (card (set (takeWhile (\<lambda>l. l \<noteq> label_of (files ! i)) (map label_of files)))) \<and>
      dirs st ! nat (YS st ! i) = label_of (files ! i)" by simp
  qed
  with d s l show ?thesis by blast
qed

theorem label_index_first_seen_witness:
  "forEach (example_env cat_files) [1, 1] [''catA/1.png'', ''catB/2.png'', ''catA/3.png''] init_loader =
     Inr cat_loader \<and>
   dirs cat_loader = [''catA'', ''catB''] \<and> YS cat_loader = [0, 1, 0] \<and>
   js_indexOf (dirs cat_loader) ''catA'' = 0 \<and> js_indexOf (dirs cat_loader) ''catB'' = 1 \<and>
   distinct (dirs cat_loader) \<and>
   set (dirs cat_loader) = set (map label_of [''catA/1.png'', ''catB/2.png'', ''catA/3.png'']) \<and>
   length (YS cat_loader) = length [''catA/1.png'', ''catB/2.png'', ''catA/3.png''] \<and>
   YS cat_loader ! 1 =
     js_indexOf (dirs cat_loader) (label_of ([''catA/1.png'', ''catB/2.png'', ''catA/3.png''] ! 1)) \<and>
   YS cat_loader ! 1 =
     int (card (set (takeWhile
       (\<lambda>l. l \<noteq> label_of ([''catA/1.png'', ''catB/2.png'', ''catA/3.png''] ! 1))
       (map label_of [''catA/1.png'', ''catB/2.png'', ''catA/3.png''])))) \<and>
   dirs cat_loader ! nat (YS cat_loader ! 1) =
     label_of ([''catA/1.png'', ''catB/2.png'', ''catA/3.png''] ! 1)"
proof -
  note t = label_index_first_seen[OF cat_forEach]
  have a: "dirs cat_loader = [''catA'', ''catB'']" "YS cat_loader = [0, 1, 0]"
    by (simp_all add: cat_loader_def)
  have b: "js_indexOf (dirs cat_loader) ''catA'' = 0" "js_indexOf (dirs cat_loader) ''catB'' = 1"
    by (simp_all add: cat_loader_def)
  have i: "1 < length [''catA/1.png'', ''catB/2.png'', ''catA/3.png'']" by simp
  note c = t[THEN conjunct2, THEN conjunct2, THEN conjunct2, THEN spec, THEN mp, OF i]
  show ?thesis
    by (intro conjI cat_forEach a b t[THEN conjunct1] t[THEN conjunct2, THEN conjunct1]
          t[THEN conjunct2, THEN conjunct2, THEN conjunct1]
          c[THEN conjunct1] c[THEN conjunct2, THEN conjunct1] c[THEN conjunct2, THEN conjunct2])
qed

subsection \<open>Failures\<close>

lemma fileToTensor_decode_fail:
  "readFileSync env f = Inr raw \<Longrightarrow> decodeImage env raw 3 = Inl err \<Longrightarrow>
   fileToTensor env f imsize = Inl err"
  by (simp add: fileToTensor_def)

lemma fileToTensor_isl_size:
  "isl (fileToTensor env f imsize) = isl (fileToTensor env f imsize')"
  by (simp add: fileToTensor_def Let_def split: sum.splits)

lemma folderToTensors_rejects:
  assumes "glob env (glob_pattern dirPath) = Inr files"
    and "f \<in> set files" and "isl (fileToTensor env f imsize)"
  shows "settled (folderToTensors env dirPath imsize) = Rejected None \<and>
         exit_code (folderToTensors env dirPath imsize) = Some 1 \<and>
         (\<exists>k<length files. \<exists>e.
            fileToTensor env (files ! k) imsize = Inl e \<and>
            (\<forall>j<k. \<not> isl (fileToTensor env (files ! j) imsize)) \<and>
            reads (folderToTensors env dirPath imsize) = take (Suc k) files \<and>
            console (folderToTensors env dirPath imsize) =
              [Log ''Identifying Image List'',
               Log (string_of_nat (length files) @ '' Files Found''),
               Log ''Now converting to tensors'',
               ConsoleError ''Failed to access files'' e])"
proof (cases "forEach env imsize files init_loader")
  case (Inr st)
  from forEach_all_ok[OF Inr] assms(2,3) show ?thesis by blast
next
  case (Inl thrown)
  obtain e st where th: "thrown = (e, st)" by (cases thrown)
  from forEach_fail[OF Inl[unfolded th]] obtain k where k: "k < length files"
    "fileToTensor env (files ! k) imsize = Inl e"
    "\<forall>j<k. \<not> isl (fileToTensor env (files ! j) imsize)"
    "opened st = opened init_loader @ take (Suc k) files" by blast
  have eq: "folderToTensors env dirPath imsize =
     catch_handler
       [Log ''Identifying Image List'',
        Log (string_of_nat (length files) @ '' Files Found''),
        Log ''Now converting to tensors'']
       (opened st) e"
    using assms(1) Inl[unfolded th] by (rule folderToTensors_forEach_fail)
  have op: "opened st = take (Suc k) files" using k(4) by (simp add: init_loader_def)
  show ?thesis
    unfolding eq using k(1,2,3) op by (auto simp: catch_handler_def)
qed

lemma learnTransferModel_aborted:
  assumes "exit_code (folderToTensors env folderPath [224, 224]) = Some code"
  shows "run_dataset (learnTransferModel env folderPath socket) = None \<and>
         run_features (learnTransferModel env folderPath socket) = None \<and>
         run_model (learnTransferModel env folderPath socket) = None \<and>
         run_history (learnTransferModel env folderPath socket) = [] \<and>
         run_events (learnTransferModel env folderPath socket) =
           emit_if socket [LogEvent ''loading images''] \<and>
         run_promise (learnTransferModel env folderPath socket) = Pending \<and>
         run_exit (learnTransferModel env folderPath socket) = Some code"
  by (simp add: learnTransferModel_exited[OF assms] stopped_def)

text \<open>
  Claim C9. If one of the enumerated files cannot be decoded, the load stops at the first
  file that \<^verbatim>\<open>fileToTensor\<close> fails on: the files before it were converted, no file after it
  is opened, the promise is rejected, no dataset is produced, and \<^verbatim>\<open>learnTransferModel\<close>
  neither extracts features nor trains. This holds for every enumeration and every position
  of the corrupt file.
\<close>

theorem decode_failure_aborts:
  assumes "glob env (glob_pattern dirPath) = Inr files"
    and "f \<in> set files"
    and "readFileSync env f = Inr raw"
    and "decodeImage env raw 3 = Inl err"
  shows "(\<exists>k<length files.
            isl (fileToTensor env (files ! k) imsize) \<and>
            (\<forall>j<k. \<not> isl (fileToTensor env (files ! j) imsize)) \<and>
            reads (folderToTensors env dirPath imsize) = take (Suc k) files) \<and>
         settled (folderToTensors env dirPath imsize) = Rejected None \<and>
         run_dataset (learnTransferModel env dirPath socket) = None \<and>
         run_features (learnTransferModel env dirPath socket) = None \<and>
         run_model (learnTransferModel env dirPath socket) = None \<and>
         run_history (learnTransferModel env dirPath socket) = [] \<and>
         run_promise (learnTransferModel env dirPath socket) \<noteq> Fulfilled ()"
proof -
  have fail: "\<And>sz. isl (fileToTensor env f sz)"
    using fileToTensor_decode_fail[OF assms(3,4)] by simp
  note a = folderToTensors_rejects[OF assms(1,2) fail, of imsize]
  note b = folderToTensors_rejects[OF assms(1,2) fail, of "[224, 224]"]
  from b have "exit_code (folderToTensors env dirPath [224, 224]) = Some 1" by blast
  note c = learnTransferModel_aborted[OF this, of socket]
  from a have k: "\<exists>k<length files.
            isl (fileToTensor env (files ! k) imsize) \<and>
            (\<forall>j<k. \<not> isl (fileToTensor env (files ! j) imsize)) \<and>
            reads (folderToTensors env dirPath imsize) = take (Suc k) files"
    by (metis sum.disc(1))
  from a have s: "settled (folderToTensors env dirPath imsize) = Rejected None" by blast
  from k s c show ?thesis by simp
qed

lemma corrupt_glob:
  "glob (example_env corrupt_files) (glob_pattern ''root'') =
     Inr [''root/a/1.png'', ''root/b/2.png'', ''root/a/3.png'']"
  by (simp add: example_env_def corrupt_files_def)

lemma corrupt_read:
  "readFileSync (example_env corrupt_files) ''root/b/2.png'' = Inr []"
  by (simp add: example_env_def corrupt_files_def)

lemma corrupt_decode:
  "decodeImage (example_env corrupt_files) [] 3 = Inl (DecodeError ''unsupported image format'')"
  by (simp add: example_env_def toy_decode_def)

lemma corrupt_reads:
  "reads (folderToTensors (example_env corrupt_files) ''root'' [1, 1]) =
     [''root/a/1.png'', ''root/b/2.png'']"
  by code_simp

theorem decode_failure_aborts_witness:
  "glob (example_env corrupt_files) (glob_pattern ''root'') =
     Inr [''root/a/1.png'', ''root/b/2.png'', ''root/a/3.png''] \<and>
   ''root/b/2.png'' \<in> set [''root/a/1.png'', ''root/b/2.png'', ''root/a/3.png''] \<and>
   readFileSync (example_env corrupt_files) ''root/b/2.png'' = Inr [] \<and>
   decodeImage (example_env corrupt_files) [] 3 = Inl (DecodeError ''unsupported image format'') \<and>
   reads (folderToTensors (example_env corrupt_files) ''root'' [1, 1]) =
     [''root/a/1.png'', ''root/b/2.png''] \<and>
   settled (folderToTensors (example_env corrupt_files) ''root'' [1, 1]) = Rejected None \<and>
   run_dataset (learnTransferModel (example_env corrupt_files) ''root'' None) = None \<and>
   run_features (learnTransferModel (example_env corrupt_files) ''root'' None) = None \<and>
   run_model (learnTransferModel (example_env corrupt_files) ''root'' None) = None \<and>
   run_history (learnTransferModel (example_env corrupt_files) ''root'' None) = [] \<and>
   run_promise (learnTransferModel (example_env corrupt_files) ''root'' None) \<noteq> Fulfilled ()"
proof -
  have m: "''root/b/2.png'' \<in> set [''root/a/1.png'', ''root/b/2.png'', ''root/a/3.png'']" by simp
  note t = decode_failure_aborts[OF corrupt_glob m corrupt_read corrupt_decode, of "[1, 1]" None]
  note u = t[THEN conjunct2]
  show ?thesis
    by (intro conjI corrupt_glob m corrupt_read corrupt_decode corrupt_reads
          u[THEN conjunct1] u[THEN conjunct2, THEN conjunct1]
          u[THEN conjunct2, THEN conjunct2, THEN conjunct1]
          u[THEN conjunct2, THEN conjunct2, THEN conjunct2, THEN conjunct1]
          u[THEN conjunct2, THEN conjunct2, THEN conjunct2, THEN conjunct2, THEN conjunct1]
          u[THEN conjunct2, THEN conjunct2, THEN conjunct2, THEN conjunct2, THEN conjunct2])
qed

text \<open>
  Claim C2 does not hold: when the second of three files is corrupt, and when the
  enumeration fails, the promise is rejected without any reason and the process is
  terminated with exit code 1.
\<close>

theorem error_propagation_counterexample:
  "settled (folderToTensors (example_env corrupt_files) ''root'' [224, 224]) = Rejected None \<and>
   exit_code (folderToTensors (example_env corrupt_files) ''root'' [224, 224]) = Some 1 \<and>
   settled (folderToTensors unreadable_env ''root'' [224, 224]) = Rejected None \<and>
   exit_code (folderToTensors unreadable_env ''root'' [224, 224]) = Some 1"
proof -
  have m: "''root/b/2.png'' \<in> set [''root/a/1.png'', ''root/b/2.png'', ''root/a/3.png'']" by simp
  have "isl (fileToTensor (example_env corrupt_files) ''root/b/2.png'' [224, 224])"
    using fileToTensor_decode_fail[OF corrupt_read corrupt_decode] by simp
  note a = folderToTensors_rejects[OF corrupt_glob m this]
  have "glob unreadable_env (glob_pattern ''root'') = Inl (GlobError ''EACCES'')"
    by (simp add: unreadable_env_def)
  note b = folderToTensors_glob_fail[OF this, of "[224, 224]"]
  show ?thesis
    by (intro conjI a[THEN conjunct1] a[THEN conjunct2, THEN conjunct1])
       (simp_all add: b catch_handler_def)
qed

text \<open>
  Claim C2 as amended. Whenever the enumeration fails, or \<^verbatim>\<open>fileToTensor\<close> fails on one of
  the enumerated files, \<^verbatim>\<open>folderToTensors\<close> prints the error that occurred (the error of
  the enumeration, or the error of the first file on which \<^verbatim>\<open>fileToTensor\<close> fails) after
  the text ``Failed to access files'', rejects its promise without a reason and terminates
  the process with exit code 1; the promise of \<^verbatim>\<open>learnTransferModel\<close> is then never
  settled.
\<close>

theorem failure_rejects_and_exits:
  assumes "(\<exists>err. glob env (glob_pattern dirPath) = Inl err) \<or>
           (\<exists>files f. glob env (glob_pattern dirPath) = Inr files \<and> f \<in> set files \<and>
              isl (fileToTensor env f imsize))"
  shows "settled (folderToTensors env dirPath imsize) = Rejected None \<and>
         exit_code (folderToTensors env dirPath imsize) = Some 1 \<and>
         run_promise (learnTransferModel env dirPath socket) = Pending \<and>
         run_exit (learnTransferModel env dirPath socket) = Some 1 \<and>
         (\<forall>err. glob env (glob_pattern dirPath) = Inl err \<longrightarrow>
            console (folderToTensors env dirPath imsize) =
              [Log ''Identifying Image List'', ConsoleError ''Failed to access files'' err]) \<and>
         (\<forall>files. glob env (glob_pattern dirPath) = Inr files \<longrightarrow>
            (\<exists>k<length files. \<exists>e.
               fileToTensor env (files ! k) imsize = Inl e \<and>
               (\<forall>j<k. \<not> isl (fileToTensor env (files ! j) imsize)) \<and>
               console (folderToTensors env dirPath imsize) =
                 [Log ''Identifying Image List'',
                  Log (string_of_nat (length files) @ '' Files Found''),
                  Log ''Now converting to tensors'',
                  ConsoleError ''Failed to access files'' e]))"
  using assms
proof (elim disjE exE conjE)
  fix err assume g: "glob env (glob_pattern dirPath) = Inl err"
  have "exit_code (folderToTensors env dirPath [224, 224]) = Some 1"
    by (simp add: folderToTensors_glob_fail[OF g] catch_handler_def)
  from learnTransferModel_aborted[OF this, of socket] show ?thesis
    by (simp add: folderToTensors_glob_fail[OF g] catch_handler_def g)
next
  fix files f
  assume g: "glob env (glob_pattern dirPath) = Inr files" and f: "f \<in> set files"
    and i: "isl (fileToTensor env f imsize)"
  from i have i': "isl (fileToTensor env f [224, 224])"
    by (simp add: fileToTensor_isl_size[of env f imsize "[224, 224]"])
  note a = folderToTensors_rejects[OF g f i]
  from folderToTensors_rejects[OF g f i']
  have "exit_code (folderToTensors env dirPath [224, 224]) = Some 1" by blast
  note c = learnTransferModel_aborted[OF this, of socket]
  from a have k: "\<exists>k<length files. \<exists>e.
      fileToTensor env (files ! k) imsize = Inl e \<and>
      (\<forall>j<k. \<not> isl (fileToTensor env (files ! j) imsize)) \<and>
      console (folderToTensors env dirPath imsize) =
        [Log ''Identifying Image List'',
         Log (string_of_nat (length files) @ '' Files Found''),
         Log ''Now converting to tensors'',
         ConsoleError ''Failed to access files'' e]" by blast
  from a have s: "settled (folderToTensors env dirPath imsize) = Rejected None"
    "exit_code (folderToTensors env dirPath imsize) = Some 1" by blast+
  from c have p: "run_promise (learnTransferModel env dirPath socket) = Pending"
    "run_exit (learnTransferModel env dirPath socket) = Some 1" by blast+
  show ?thesis
    using s p k by (simp add: g)
qed

lemma unreadable_glob:
  "glob unreadable_env (glob_pattern ''root'') = Inl (GlobError ''EACCES'')"
  by (simp add: unreadable_env_def)

theorem failure_rejects_and_exits_witness:
  "((\<exists>err. glob (example_env corrupt_files) (glob_pattern ''root'') = Inl err) \<or>
    (\<exists>files f. glob (example_env corrupt_files) (glob_pattern ''root'') = Inr files \<and>
       f \<in> set files \<and> isl (fileToTensor (example_env corrupt_files) f [224, 224]))) \<and>
   glob (example_env corrupt_files) (glob_pattern ''root'') =
     Inr [''root/a/1.png'', ''root/b/2.png'', ''root/a/3.png''] \<and>
   fileToTensor (example_env corrupt_files) ''root/b/2.png'' [224, 224] =
     Inl (DecodeError ''unsupported image format'') \<and>
   settled (folderToTensors (example_env corrupt_files) ''root'' [224, 224]) = Rejected None \<and>
   exit_code (folderToTensors (example_env corrupt_files) ''root'' [224, 224]) = Some 1 \<and>
   run_promise (learnTransferModel (example_env corrupt_files) ''root'' (Some 7)) = Pending \<and>
   run_exit (learnTransferModel (example_env corrupt_files) ''root'' (Some 7)) = Some 1 \<and>
   console (folderToTensors (example_env corrupt_files) ''root'' [224, 224]) =
     [Log ''Identifying Image List'', Log ''3 Files Found'', Log ''Now converting to tensors'',
      ConsoleError ''Failed to access files'' (DecodeError ''unsupported image format'')] \<and>
   glob unreadable_env (glob_pattern ''root'') = Inl (GlobError ''EACCES'') \<and>
   console (folderToTensors unreadable_env ''root'' [224, 224]) =
     [Log ''Identifying Image List'',
      ConsoleError ''Failed to access files'' (GlobError ''EACCES'')]"
proof -
  let ?env = "example_env corrupt_files"
  let ?files = "[''root/a/1.png'', ''root/b/2.png'', ''root/a/3.png'']"
  have m: "''root/b/2.png'' \<in> set ?files" by simp
  have d: "fileToTensor ?env ''root/b/2.png'' [224, 224] =
      Inl (DecodeError ''unsupported image format'')"
    using corrupt_read corrupt_decode by (rule fileToTensor_decode_fail)
  then have i: "isl (fileToTensor ?env ''root/b/2.png'' [224, 224])" by simp
  have ok: "\<not> isl (fileToTensor ?env ''root/a/1.png'' [224, 224])"
    by (simp add: toy_fileToTensor corrupt_files_def)
  have h: "(\<exists>err. glob ?env (glob_pattern ''root'') = Inl err) \<or>
    (\<exists>files f. glob ?env (glob_pattern ''root'') = Inr files \<and>
       f \<in> set files \<and> isl (fileToTensor ?env f [224, 224]))"
    using corrupt_glob m i by blast
  note t = failure_rejects_and_exits[OF h, of "Some 7"]
  note t6 = t[THEN conjunct2, THEN conjunct2, THEN conjunct2, THEN conjunct2, THEN conjunct2,
              THEN spec, THEN mp, OF corrupt_glob]
  from t6 obtain k e where k: "k < length ?files"
    and e: "fileToTensor ?env (?files ! k) [224, 224] = Inl e"
    and b: "\<forall>j<k. \<not> isl (fileToTensor ?env (?files ! j) [224, 224])"
    and c: "console (folderToTensors ?env ''root'' [224, 224]) =
      [Log ''Identifying Image List'',
       Log (string_of_nat (length ?files) @ '' Files Found''),
       Log ''Now converting to tensors'',
       ConsoleError ''Failed to access files'' e]" by blast
  have k0: "k \<noteq> 0" using e ok by (cases k) auto
  have k2: "k \<noteq> 2"
  proof
    assume "k = 2"
    then have "(1::nat) < k" by simp
    with b have "\<not> isl (fileToTensor ?env (?files ! 1) [224, 224])" by blast
    with i show False by simp
  qed
  from k k0 k2 have "k = 1" by simp
  with e d have "e = DecodeError ''unsupported image format''" by simp
  moreover have "string_of_nat (length ?files) = ''3''" by code_simp
  ultimately have cons: "console (folderToTensors ?env ''root'' [224, 224]) =
     [Log ''Identifying Image List'', Log ''3 Files Found'', Log ''Now converting to tensors'',
      ConsoleError ''Failed to access files'' (DecodeError ''unsupported image format'')]"
    using c by simp
  have h': "(\<exists>err. glob unreadable_env (glob_pattern ''root'') = Inl err) \<or>
    (\<exists>files f. glob unreadable_env (glob_pattern ''root'') = Inr files \<and>
       f \<in> set files \<and> isl (fileToTensor unreadable_env f [224, 224]))"
    using unreadable_glob by blast
  note u = failure_rejects_and_exits[OF h', of None]
  note u5 = u[THEN conjunct2, THEN conjunct2, THEN conjunct2, THEN conjunct2, THEN conjunct1,
              THEN spec, THEN mp, OF unreadable_glob]
  show ?thesis
    by (intro conjI h corrupt_glob d t[THEN conjunct1] t[THEN conjunct2, THEN conjunct1]
          t[THEN conjunct2, THEN conjunct2, THEN conjunct1]
          t[THEN conjunct2, THEN conjunct2, THEN conjunct2, THEN conjunct1]
          cons unreadable_glob u5)
qed

lemma forEach_XS:
  assumes "forEach env imsize files st = Inr st'"
    and "\<forall>t \<in> set (XS st). P t"
    and "\<And>f t. fileToTensor env f imsize = Inr t \<Longrightarrow> P t"
  shows "\<forall>t \<in> set (XS st'). P t"
  using assms(1,2)
proof (induction files arbitrary: st)
  case Nil
  then show ?case by simp
next
  case (Cons f files)
  then obtain st1 where b: "forEach_body env imsize st f = Inr st1"
    and r: "forEach env imsize files st1 = Inr st'"
    by (auto split: sum.splits)
  from forEach_body_Inr[OF b] obtain t where
    t: "fileToTensor env f imsize = Inr t" "XS st1 = XS st @ [t]" by auto
  have "\<forall>t \<in> set (XS st1). P t" using Cons.prems(2) assms(3)[OF t(1)] t(2) by simp
  from Cons.IH[OF r this] show ?case .
qed

lemma fileToTensor_range:
  assumes "fileToTensor env f imsize = Inr t"
    and "\<And>raw img. decodeImage env raw 3 = Inr img \<Longrightarrow>
           \<forall>v \<in> set (vals (resizeBilinear env img imsize)). 0 \<le> v \<and> v \<le> 255"
  shows "\<forall>v \<in> set (vals t). 0 \<le> v \<and> v \<le> 1"
proof -
  from assms(1) obtain raw img where d: "decodeImage env raw 3 = Inr img"
    and t: "t = tf_div (resizeBilinear env img imsize) 255"
    by (auto simp: fileToTensor_def tf_cast_float32_def Let_def split: sum.splits)
  from assms(2)[OF d] show ?thesis
    unfolding t by (auto simp: tf_div_def)
qed

lemma tf_stack_vals:
  assumes "tf_stack ts = Inr X"
  shows "None \<notin> set ts \<and> vals X = concat (map (\<lambda>t. vals (the t)) ts)"
  using assms by (auto simp: tf_stack_def Let_def comp_def split: if_splits)

text \<open>
  What the two divisions do for every folder: when the decoded and resized images hold
  values between 0 and 255, every value of the tensor \<^verbatim>\<open>folderToTensors\<close> resolves with
  lies between 0 and \<open>1/255\<close>.
\<close>

lemma folderToTensors_pixel_range:
  assumes "settled (folderToTensors env dirPath imsize) = Fulfilled (XNORM, Y, dirnames)"
    and "random_ok (math_random env)"
    and "\<And>raw img. decodeImage env raw 3 = Inr img \<Longrightarrow>
           \<forall>v \<in> set (vals (resizeBilinear env img imsize)). 0 \<le> v \<and> v \<le> 255"
  shows "\<forall>v \<in> set (vals XNORM). 0 \<le> v \<and> v \<le> 1 / 255"
proof -
  from folderToTensors_FulfilledD[OF assms(1)] obtain files st printed array array2 X where
    st: "forEach env imsize files init_loader = Inr st"
    and sh: "shuffleCombo (math_random env) (map Some (XS st)) (map Some (YS st))
               = (printed, array, array2)"
    and X: "tf_stack array = Inr X" and XN: "XNORM = tf_div X 255"
    by blast
  have len: "length (map Some (XS st)) = length (map Some (YS st))"
    using forEach_lengths[OF st] by (simp add: init_loader_def)
  from shuffleCombo_result[OF assms(2) len sh]
  have la: "length array = length array2"
    and ms: "mset (zip array array2) = mset (zip (map Some (XS st)) (map Some (YS st)))"
    using len by simp_all
  have "set array = fst ` set (zip array array2)"
    using la by (metis map_fst_zip set_map)
  also have "\<dots> = fst ` set (zip (map Some (XS st)) (map Some (YS st)))"
    using mset_eq_setD[OF ms] by simp
  also have "\<dots> = set (map Some (XS st))"
    using len by (metis map_fst_zip set_map)
  finally have sa: "set array = Some ` set (XS st)" by simp
  have rng: "\<forall>t \<in> set (XS st). \<forall>v \<in> set (vals t). 0 \<le> v \<and> v \<le> 1"
    using st
  proof (rule forEach_XS)
    show "\<forall>t \<in> set (XS init_loader). \<forall>v \<in> set (vals t). 0 \<le> v \<and> v \<le> 1"
      by (simp add: init_loader_def)
    fix f t assume "fileToTensor env f imsize = Inr t"
    then show "\<forall>v \<in> set (vals t). 0 \<le> v \<and> v \<le> 1"
      using assms(3) by (rule fileToTensor_range)
  qed
  have "\<forall>v \<in> set (vals X). 0 \<le> v \<and> v \<le> 1"
  proof
    fix v assume "v \<in> set (vals X)"
    then obtain t where "t \<in> set array" "v \<in> set (vals (the t))"
      using tf_stack_vals[OF X] by auto
    with sa rng show "0 \<le> v \<and> v \<le> 1" by auto
  qed
  then show ?thesis unfolding XN by (auto simp: tf_div_def)
qed

text \<open>
  Claim C1 fails on the code: an image is divided by 255 in \<^verbatim>\<open>fileToTensor\<close> and the stack
  is divided by 255 again in \<^verbatim>\<open>folderToTensors\<close>. For two white images \<^verbatim>\<open>fileToTensor\<close>
  returns the value 1 everywhere, and the tensor \<^verbatim>\<open>folderToTensors\<close> resolves with, which
  \<^verbatim>\<open>learnTransferModel\<close> passes to the feature model, holds \<open>1/255\<close> everywhere.
\<close>

theorem double_normalization:
  "fileToTensor (example_env white_files) ''root/a/1.png'' [224, 224] =
     Inr \<lparr>shape = [224, 224, 3], vals = replicate 150528 1\<rparr> \<and>
   settled (folderToTensors (example_env white_files) ''root'' [224, 224]) =
     Fulfilled
       (\<lparr>shape = [2, 224, 224, 3], vals = replicate 150528 (1 / 255) @ replicate 150528 (1 / 255)\<rparr>,
        \<lparr>shape = [2, 2], vals = [0, 1, 1, 0]\<rparr>, [''a'', ''b'']) \<and>
   run_dataset (learnTransferModel (example_env white_files) ''root'' None) =
     Some
       (\<lparr>shape = [2, 224, 224, 3], vals = replicate 150528 (1 / 255) @ replicate 150528 (1 / 255)\<rparr>,
        \<lparr>shape = [2, 2], vals = [0, 1, 1, 0]\<rparr>, [''a'', ''b''])"
proof -
  have a: "fileToTensor (example_env white_files) ''root/a/1.png'' [224, 224] =
     Inr \<lparr>shape = [224, 224, 3], vals = replicate 150528 1\<rparr>"
    by (simp add: toy_fileToTensor white_files_def)
  have b: "settled (folderToTensors (example_env white_files) ''root'' [224, 224]) =
     Fulfilled
       (\<lparr>shape = [2, 224, 224, 3], vals = replicate 150528 (1 / 255) @ replicate 150528 (1 / 255)\<rparr>,
        \<lparr>shape = [2, 2], vals = [0, 1, 1, 0]\<rparr>, [''a'', ''b''])"
    by (simp add: white_folderToTensors)
  have e: "exit_code (folderToTensors (example_env white_files) ''root'' [224, 224]) = None"
    by (simp add: white_folderToTensors)
  from learnTransferModel_dataset[OF e b] a b show ?thesis by simp
qed

subsection \<open>The one-hot labels\<close>

lemma rows_of_concat:
  "\<forall>r \<in> set rows. length r = d \<Longrightarrow> i < length rows \<Longrightarrow>
   take d (drop (i * d) (concat rows)) = rows ! i"
proof (induction rows arbitrary: i)
  case Nil
  then show ?case by simp
next
  case (Cons r rows)
  show ?case
  proof (cases i)
    case 0
    with Cons.prems show ?thesis by simp
  next
    case (Suc j)
    with Cons.prems have "take d (drop (j * d) (concat rows)) = rows ! j"
      by (intro Cons.IH) simp_all
    with Cons.prems Suc show ?thesis by simp
  qed
qed

lemma length_oneHot_row: "length (oneHot_row depth y) = depth"
  by (simp add: oneHot_row_def)

lemma nth_oneHot_row:
  "j < depth \<Longrightarrow> oneHot_row depth y ! j = (if int j = y then 1 else 0)"
  by (simp add: oneHot_row_def)

lemma sum_oneHot_row:
  "sum_list (oneHot_row depth y) = (if 0 \<le> y \<and> y < int depth then 1 else 0)"
  unfolding oneHot_row_def by (induction depth) auto

lemma tf_oneHot_shape:
  "tf_oneHot indices depth = Inr Y \<Longrightarrow> shape Y = [length indices, depth]"
  by (auto simp: tf_oneHot_def split: if_splits)

lemma tf_oneHot_row:
  assumes "tf_oneHot indices depth = Inr Y" and "i < length indices"
  shows "shape Y = [length indices, depth] \<and> row Y i = oneHot_row depth (the (indices ! i))"
proof -
  from assms(1) have Y: "Y = \<lparr>shape = [length indices, depth],
      vals = concat (map (\<lambda>y. oneHot_row depth (the y)) indices)\<rparr>"
    by (simp add: tf_oneHot_def split: if_splits)
  have "take depth (drop (i * depth) (concat (map (\<lambda>y. oneHot_row depth (the y)) indices))) =
      map (\<lambda>y. oneHot_row depth (the y)) indices ! i"
    using assms(2) by (intro rows_of_concat) (simp_all add: length_oneHot_row)
  then show ?thesis using assms(2) by (simp add: Y row_def)
qed

lemma forEach_label_range:
  assumes "forEach env imsize files init_loader = Inr st" and "y \<in> set (YS st)"
  shows "0 \<le> y \<and> y < int (length (dirs st))"
proof -
  have i0: "dirs_inv [] (dirs init_loader)" by (simp add: dirs_inv_def init_loader_def)
  have y0: "YS init_loader = map (js_indexOf (dirs init_loader)) []" by (simp add: init_loader_def)
  from forEach_labels[OF assms(1) i0 y0]
  have inv: "dirs_inv (map label_of files) (dirs st)"
    and ys: "YS st = map (js_indexOf (dirs st)) (map label_of files)" by simp_all
  from assms(2) ys obtain l where l: "l \<in> set (map label_of files)" "y = js_indexOf (dirs st) l"
    by auto
  from l(1) inv have "l \<in> set (dirs st)" by (simp add: dirs_inv_def)
  from js_indexOf_nth[OF this] l(2) show ?thesis by simp
qed

lemma forEach_images:
  "forEach env imsize files st = Inr st' \<Longrightarrow>
   \<exists>ts. XS st' = XS st @ ts \<and> length ts = length files \<and>
        (\<forall>k<length files. fileToTensor env (files ! k) imsize = Inr (ts ! k))"
proof (induction files arbitrary: st)
  case Nil
  then show ?case by simp
next
  case (Cons f files)
  then obtain st1 where b: "forEach_body env imsize st f = Inr st1"
    and r: "forEach env imsize files st1 = Inr st'"
    by (auto split: sum.splits)
  from forEach_body_Inr[OF b] obtain t where
    t: "fileToTensor env f imsize = Inr t" "XS st1 = XS st @ [t]" by auto
  from Cons.IH[OF r] obtain ts where ts: "XS st' = XS st1 @ ts" "length ts = length files"
    "\<forall>k<length files. fileToTensor env (files ! k) imsize = Inr (ts ! k)" by blast
  have "\<forall>k<length (f # files). fileToTensor env ((f # files) ! k) imsize = Inr ((t # ts) ! k)"
    using t(1) ts(3) by (auto simp: less_Suc_eq_0_disj)
  moreover have "XS st' = XS st @ (t # ts)" using t(2) ts(1) by simp
  moreover have "length (t # ts) = length (f # files)" using ts(2) by simp
  ultimately show ?case by blast
qed

lemma forEach_file_facts:
  assumes "forEach env imsize files init_loader = Inr st" and "k < length files"
  shows "fileToTensor env (files ! k) imsize = Inr (XS st ! k) \<and>
         YS st ! k = js_indexOf (dirs st) (label_of (files ! k))"
proof -
  from forEach_images[OF assms(1)] assms(2)
  have a: "fileToTensor env (files ! k) imsize = Inr (XS st ! k)"
    by (auto simp: init_loader_def)
  have i0: "dirs_inv [] (dirs init_loader)" by (simp add: dirs_inv_def init_loader_def)
  have y0: "YS init_loader = map (js_indexOf (dirs init_loader)) []" by (simp add: init_loader_def)
  from forEach_labels[OF assms(1) i0 y0]
  have "YS st = map (js_indexOf (dirs st)) (map label_of files)" by simp
  then have "YS st ! k = js_indexOf (dirs st) (label_of (files ! k))" using assms(2) by simp
  with a show ?thesis by simp
qed

lemma shuffleCombo_sets:
  assumes "random_ok rnd" and "length a = length b"
    and "shuffleCombo rnd a b = (printed, out, out2)"
  shows "set out = set a \<and> set out2 = set b"
proof -
  from shuffleCombo_result[OF assms]
  have l: "length out = length a" "length out2 = length b"
    and ms: "mset (zip out out2) = mset (zip a b)" by simp_all
  have lo: "length out = length out2" using l assms(2) by simp
  have "set out = fst ` set (zip out out2)" using lo by (metis map_fst_zip set_map)
  also have "\<dots> = fst ` set (zip a b)" using mset_eq_setD[OF ms] by simp
  also have "\<dots> = set a" using assms(2) by (metis map_fst_zip set_map)
  finally have x: "set out = set a" .
  have "set out2 = snd ` set (zip out out2)" using lo by (metis map_snd_zip set_map)
  also have "\<dots> = snd ` set (zip a b)" using mset_eq_setD[OF ms] by simp
  also have "\<dots> = set b" using assms(2) by (metis map_snd_zip set_map)
  finally show ?thesis using x by simp
qed

lemma tf_stack_succeeds:
  assumes "ts \<noteq> []" and "None \<notin> set ts" and "\<forall>t \<in> set ts. shape (the t) = sh"
  shows "tf_stack ts = Inr \<lparr>shape = length ts # sh, vals = concat (map (\<lambda>t. vals (the t)) ts)\<rparr>"
proof -
  have "shape (hd (map the ts)) = sh" using assms(1,3) by (cases ts) simp_all
  then show ?thesis
    using assms by (simp add: tf_stack_def Let_def comp_def)
qed

lemma tf_oneHot_succeeds:
  assumes "2 \<le> depth" and "None \<notin> set indices"
  shows "tf_oneHot indices depth =
     Inr \<lparr>shape = [length indices, depth],
          vals = concat (map (\<lambda>y. oneHot_row depth (the y)) indices)\<rparr>"
  using assms by (simp add: tf_oneHot_def)

lemma folderToTensors_few_labels:
  assumes "glob env (glob_pattern dirPath) = Inr files"
    and "forEach env imsize files init_loader = Inr st"
    and "length (dirs st) < 2"
  shows "settled (folderToTensors env dirPath imsize) = Rejected None \<and>
         exit_code (folderToTensors env dirPath imsize) = Some 1"
  using assms
  by (simp add: folderToTensors_def tf_oneHot_def catch_handler_def Let_def
        split: sum.splits prod.splits)

lemma one_label_forEach:
  "forEach (example_env one_label_files) [224, 224]
     [''root/a/1.png'', ''root/a/2.png''] init_loader =
   Inr \<lparr>XS = [\<lparr>shape = [224, 224, 3], vals = replicate 150528 1\<rparr>,
              \<lparr>shape = [224, 224, 3], vals = replicate 150528 0\<rparr>],
        YS = [0, 0], dirs = [''a''],
        opened = [''root/a/1.png'', ''root/a/2.png'']\<rparr>"
proof -
  have l: "label_of ''root/a/1.png'' = ''a''" "label_of ''root/a/2.png'' = ''a''"
    by (simp_all add: label_of_def path_basename_def path_dirname_def)
  show ?thesis
    by (simp add: forEach_body_def toy_fileToTensor l init_loader_def js_includes_def
          one_label_files_def)
qed

text \<open>
  Claim C7 does not hold for every run: for a folder with two images under one label,
  \<^verbatim>\<open>tf.oneHot\<close> is called with depth 1 and throws, so no label array is built; the promise
  is rejected and the process is terminated.
\<close>

theorem single_label_counterexample:
  "glob (example_env one_label_files) (glob_pattern ''root'') =
     Inr [''root/a/1.png'', ''root/a/2.png''] \<and>
   dirs \<lparr>XS = [\<lparr>shape = [224, 224, 3], vals = replicate 150528 1\<rparr>,
               \<lparr>shape = [224, 224, 3], vals = replicate 150528 0\<rparr>],
         YS = [0, 0], dirs = [''a''],
         opened = [''root/a/1.png'', ''root/a/2.png'']\<rparr> = [''a''] \<and>
   tf_oneHot [Some 0, Some 0] 1 = Inl (TfError ''Error in oneHot: depth must be >=2'') \<and>
   settled (folderToTensors (example_env one_label_files) ''root'' [224, 224]) = Rejected None \<and>
   exit_code (folderToTensors (example_env one_label_files) ''root'' [224, 224]) = Some 1"
proof -
  have g: "glob (example_env one_label_files) (glob_pattern ''root'') =
     Inr [''root/a/1.png'', ''root/a/2.png'']"
    by (simp add: example_env_def one_label_files_def)
  have o: "tf_oneHot [Some 0, Some 0] 1 = Inl (TfError ''Error in oneHot: depth must be >=2'')"
    by (simp add: tf_oneHot_def)
  have d: "dirs \<lparr>XS = [\<lparr>shape = [224, 224, 3], vals = replicate 150528 1\<rparr>,
               \<lparr>shape = [224, 224, 3], vals = replicate 150528 0\<rparr>],
         YS = [0, 0], dirs = [''a''],
         opened = [''root/a/1.png'', ''root/a/2.png'']\<rparr> = [''a'']" by simp
  then have l: "length (dirs \<lparr>XS = [\<lparr>shape = [224, 224, 3], vals = replicate 150528 1\<rparr>,
               \<lparr>shape = [224, 224, 3], vals = replicate 150528 0\<rparr>],
         YS = [0, 0], dirs = [''a''],
         opened = [''root/a/1.png'', ''root/a/2.png'']\<rparr>) < 2" by simp
  note r = folderToTensors_few_labels[OF g one_label_forEach l]
  show ?thesis
    by (intro conjI g d o r[THEN conjunct1] r[THEN conjunct2])
qed

text \<open>
  Claim C7 as amended. For every run in which all \<open>N\<close> enumerated files are converted, to
  tensors of one shape, and \<^verbatim>\<open>dirs\<close> holds \<open>numClasses\<close> names, at least two,
  \<^verbatim>\<open>folderToTensors\<close> resolves. The image tensor is the stack of the shuffled images, each
  divided by 255, and the label tensor has shape \<open>[N, numClasses]\<close>; the shuffled arrays hold
  every image with the label index of its file; row \<open>i\<close> of the label tensor sums to 1 and
  holds its 1 in the column of the label index at position \<open>i\<close>, the one of the image at
  position \<open>i\<close> of the stack. With fewer than two labels no label array is built.
\<close>

theorem folderToTensors_oneHot:
  assumes "random_ok (math_random env)"
    and "glob env (glob_pattern dirPath) = Inr files"
    and "forEach env imsize files init_loader = Inr st"
    and "2 \<le> length (dirs st)"
    and "\<forall>t \<in> set (XS st). shape t = sh"
    and "shuffleCombo (math_random env) (map Some (XS st)) (map Some (YS st))
           = (printed, array, array2)"
  shows "\<exists>XNORM Y.
           settled (folderToTensors env dirPath imsize) = Fulfilled (XNORM, Y, dirs st) \<and>
           shape XNORM = length files # sh \<and>
           vals XNORM = concat (map (\<lambda>t. map (\<lambda>v. v / 255) (vals (the t))) array) \<and>
           shape Y = [length files, length (dirs st)] \<and>
           length array = length files \<and> length array2 = length files \<and>
           mset (zip array array2) = mset (zip (map Some (XS st)) (map Some (YS st))) \<and>
           (\<forall>k<length files.
              fileToTensor env (files ! k) imsize = Inr (XS st ! k) \<and>
              YS st ! k = js_indexOf (dirs st) (label_of (files ! k))) \<and>
           (\<forall>i<length files.
              length (row Y i) = length (dirs st) \<and> sum_list (row Y i) = 1 \<and>
              (\<exists>y. array2 ! i = Some y \<and> 0 \<le> y \<and> y < int (length (dirs st)) \<and>
                   row Y i ! nat y = 1 \<and>
                   (\<forall>j<length (dirs st). j \<noteq> nat y \<longrightarrow> row Y i ! j = 0)))"
proof -
  have len: "length (XS st) = length files" "length (YS st) = length files"
    and op: "opened st = files"
    using forEach_lengths[OF assms(3)] by (simp_all add: init_loader_def)
  have leq: "length (map Some (XS st)) = length (map Some (YS st))" using len by simp
  from shuffleCombo_result[OF assms(1) leq assms(6)] len
  have pr: "printed = []" and la: "length array = length files"
    and la2: "length array2 = length files"
    and ms: "mset (zip array array2) = mset (zip (map Some (XS st)) (map Some (YS st)))"
    by simp_all
  from shuffleCombo_sets[OF assms(1) leq assms(6)]
  have sa: "set array = Some ` set (XS st)" and sa2: "set array2 = Some ` set (YS st)"
    by simp_all
  have i0: "dirs_inv [] (dirs init_loader)" by (simp add: dirs_inv_def init_loader_def)
  have y0: "YS init_loader = map (js_indexOf (dirs init_loader)) []" by (simp add: init_loader_def)
  from forEach_labels[OF assms(3) i0 y0]
  have "set (dirs st) = set (map label_of files)" by (simp add: dirs_inv_def)
  with assms(4) have fne: "files \<noteq> []" by (cases files) auto
  have ane: "array \<noteq> []" using la fne by auto
  have nn: "None \<notin> set array" using sa by auto
  have nn2: "None \<notin> set array2" using sa2 by auto
  have shp: "\<forall>t \<in> set array. shape (the t) = sh" using sa assms(5) by auto
  let ?X = "\<lparr>shape = length array # sh, vals = concat (map (\<lambda>t. vals (the t)) array)\<rparr>"
  let ?Y = "\<lparr>shape = [length array2, length (dirs st)],
             vals = concat (map (\<lambda>y. oneHot_row (length (dirs st)) (the y)) array2)\<rparr>"
  have X: "tf_stack array = Inr ?X" using ane nn shp by (rule tf_stack_succeeds)
  have Y: "tf_oneHot array2 (length (dirs st)) = Inr ?Y"
    using assms(4) nn2 by (rule tf_oneHot_succeeds)
  have s: "settled (folderToTensors env dirPath imsize) = Fulfilled (tf_div ?X 255, ?Y, dirs st)"
    by (simp add: folderToTensors_def assms(2,3,6) X Y Let_def)
  have xs: "shape (tf_div ?X 255) = length files # sh" by (simp add: tf_div_def la)
  have xv: "vals (tf_div ?X 255) = concat (map (\<lambda>t. map (\<lambda>v. v / 255) (vals (the t))) array)"
    by (simp add: tf_div_def map_concat comp_def)
  have ys: "shape ?Y = [length files, length (dirs st)]" by (simp add: la2)
  have ff: "\<forall>k<length files.
      fileToTensor env (files ! k) imsize = Inr (XS st ! k) \<and>
      YS st ! k = js_indexOf (dirs st) (label_of (files ! k))"
    using forEach_file_facts[OF assms(3)] by blast
  have rows: "\<forall>i<length files.
      length (row ?Y i) = length (dirs st) \<and> sum_list (row ?Y i) = 1 \<and>
      (\<exists>y. array2 ! i = Some y \<and> 0 \<le> y \<and> y < int (length (dirs st)) \<and>
           row ?Y i ! nat y = 1 \<and>
           (\<forall>j<length (dirs st). j \<noteq> nat y \<longrightarrow> row ?Y i ! j = 0))"
  proof (intro allI impI)
    fix i assume i: "i < length files"
    then have i2: "i < length array2" using la2 by simp
    from tf_oneHot_row[OF Y i2]
    have r: "row ?Y i = oneHot_row (length (dirs st)) (the (array2 ! i))" by simp
    have "array2 ! i \<in> set array2" using i2 by simp
    then obtain y where y: "array2 ! i = Some y" "y \<in> set (YS st)" using sa2 by auto
    from forEach_label_range[OF assms(3) y(2)]
    have yr: "0 \<le> y" "y < int (length (dirs st))" by simp_all
    then have ny: "nat y < length (dirs st)" by simp
    have a: "length (row ?Y i) = length (dirs st)" by (simp only: r length_oneHot_row)
    have b: "sum_list (row ?Y i) = 1" using yr by (simp only: r y(1) sum_oneHot_row) simp
    have c: "row ?Y i ! nat y = 1" using yr ny by (simp only: r y(1)) (simp add: nth_oneHot_row)
    have d: "\<forall>j<length (dirs st). j \<noteq> nat y \<longrightarrow> row ?Y i ! j = 0"
      using yr by (simp only: r y(1)) (auto simp: nth_oneHot_row)
    from a b c d y(1) yr
    show "length (row ?Y i) = length (dirs st) \<and> sum_list (row ?Y i) = 1 \<and>
      (\<exists>y. array2 ! i = Some y \<and> 0 \<le> y \<and> y < int (length (dirs st)) \<and>
           row ?Y i ! nat y = 1 \<and>
           (\<forall>j<length (dirs st). j \<noteq> nat y \<longrightarrow> row ?Y i ! j = 0))" by blast
  qed
  from s xs xv ys la la2 ms ff rows show ?thesis by blast
qed

lemma cat_shuffle:
  "shuffleCombo (math_random (example_env cat_files))
     (map Some (XS cat_loader)) (map Some (YS cat_loader)) =
   ([], [Some \<lparr>shape = [1, 1, 3], vals = [1 / 5, 1 / 5, 1 / 5]\<rparr>,
         Some \<lparr>shape = [1, 1, 3], vals = [1, 1, 1]\<rparr>,
         Some \<lparr>shape = [1, 1, 3], vals = [0, 0, 0]\<rparr>],
    [Some 0, Some 0, Some 1])"
  unfolding cat_loader_def by code_simp

lemma cat_folderToTensors:
  "settled (folderToTensors (example_env cat_files) ''.'' [1, 1]) =
     Fulfilled
       (\<lparr>shape = [3, 1, 1, 3],
         vals = [1 / 1275, 1 / 1275, 1 / 1275, 1 / 255, 1 / 255, 1 / 255, 0, 0, 0]\<rparr>,
        \<lparr>shape = [3, 2], vals = [1, 0, 1, 0, 0, 1]\<rparr>, [''catA'', ''catB''])"
  by code_simp

theorem folderToTensors_oneHot_witness:
  "random_ok (math_random (example_env cat_files)) \<and>
   glob (example_env cat_files) (glob_pattern ''.'') =
     Inr [''catA/1.png'', ''catB/2.png'', ''catA/3.png''] \<and>
   forEach (example_env cat_files) [1, 1] [''catA/1.png'', ''catB/2.png'', ''catA/3.png'']
     init_loader = Inr cat_loader \<and>
   2 \<le> length (dirs cat_loader) \<and>
   map shape (XS cat_loader) = [[1, 1, 3], [1, 1, 3], [1, 1, 3]] \<and>
   shuffleCombo (math_random (example_env cat_files))
     (map Some (XS cat_loader)) (map Some (YS cat_loader)) =
   ([], [Some \<lparr>shape = [1, 1, 3], vals = [1 / 5, 1 / 5, 1 / 5]\<rparr>,
         Some \<lparr>shape = [1, 1, 3], vals = [1, 1, 1]\<rparr>,
         Some \<lparr>shape = [1, 1, 3], vals = [0, 0, 0]\<rparr>],
    [Some 0, Some 0, Some 1]) \<and>
   settled (folderToTensors (example_env cat_files) ''.'' [1, 1]) =
     Fulfilled
       (\<lparr>shape = [3, 1, 1, 3],
         vals = [1 / 1275, 1 / 1275, 1 / 1275, 1 / 255, 1 / 255, 1 / 255, 0, 0, 0]\<rparr>,
        \<lparr>shape = [3, 2], vals = [1, 0, 1, 0, 0, 1]\<rparr>, [''catA'', ''catB'']) \<and>
   vals \<lparr>shape = [3, 1, 1, 3],
        vals = [1 / 1275, 1 / 1275, 1 / 1275, 1 / 255, 1 / 255, 1 / 255, 0, 0, 0]\<rparr> =
     concat (map (\<lambda>t. map (\<lambda>v. v / 255) (vals (the t)))
       [Some \<lparr>shape = [1, 1, 3], vals = [1 / 5, 1 / 5, 1 / 5]\<rparr>,
        Some \<lparr>shape = [1, 1, 3], vals = [1, 1, 1]\<rparr>,
        Some \<lparr>shape = [1, 1, 3], vals = [0, 0, 0]\<rparr>]) \<and>
   shape \<lparr>shape = [3, 2], vals = [1, 0, 1, 0, 0, 1]\<rparr> =
     [length [''catA/1.png'', ''catB/2.png'', ''catA/3.png''], length (dirs cat_loader)] \<and>
   row \<lparr>shape = [3, 2], vals = [1, 0, 1, 0, 0, 1]\<rparr> 2 = [0, 1] \<and>
   sum_list (row \<lparr>shape = [3, 2], vals = [1, 0, 1, 0, 0, 1]\<rparr> 2) = 1"
proof -
  let ?env = "example_env cat_files"
  let ?files = "[''catA/1.png'', ''catB/2.png'', ''catA/3.png'']"
  let ?XN = "\<lparr>shape = [3, 1, 1, 3],
         vals = [1 / 1275, 1 / 1275, 1 / 1275, 1 / 255, 1 / 255, 1 / 255, 0, 0, (0::rat)]\<rparr>"
  let ?Y = "\<lparr>shape = [3, 2], vals = [1, 0, 1, 0, 0, (1::rat)]\<rparr>"
  have h1: "random_ok (math_random ?env)" by (simp add: random_ok_def example_env_def)
  have h2: "glob ?env (glob_pattern ''.'') = Inr ?files"
    by (simp add: example_env_def cat_files_def)
  have h4: "2 \<le> length (dirs cat_loader)" by (simp add: cat_loader_def)
  have h5: "\<forall>t \<in> set (XS cat_loader). shape t = [1, 1, 3]" by (simp add: cat_loader_def)
  have h5': "map shape (XS cat_loader) = [[1, 1, 3], [1, 1, 3], [1, 1, 3]]"
    by (simp add: cat_loader_def)
  from folderToTensors_oneHot[OF h1 h2 cat_forEach h4 h5 cat_shuffle]
  obtain XNORM Y where
    s: "settled (folderToTensors ?env ''.'' [1, 1]) = Fulfilled (XNORM, Y, dirs cat_loader)"
    and xv: "vals XNORM = concat (map (\<lambda>t. map (\<lambda>v. v / 255) (vals (the t)))
       [Some \<lparr>shape = [1, 1, 3], vals = [1 / 5, 1 / 5, 1 / 5]\<rparr>,
        Some \<lparr>shape = [1, 1, 3], vals = [1, 1, 1]\<rparr>,
        Some \<lparr>shape = [1, 1, 3], vals = [0, 0, 0]\<rparr>])"
    and ys: "shape Y = [length ?files, length (dirs cat_loader)]"
    and rows: "\<forall>i<length ?files.
              length (row Y i) = length (dirs cat_loader) \<and> sum_list (row Y i) = 1 \<and>
              (\<exists>y. [Some (0::int), Some 0, Some 1] ! i = Some y \<and> 0 \<le> y \<and>
                   y < int (length (dirs cat_loader)) \<and>
                   row Y i ! nat y = 1 \<and>
                   (\<forall>j<length (dirs cat_loader). j \<noteq> nat y \<longrightarrow> row Y i ! j = 0))"
    by blast
  from s cat_folderToTensors have e: "XNORM = ?XN" "Y = ?Y" by simp_all
  have i: "2 < length ?files" by simp
  from rows i have "sum_list (row Y 2) = 1" by blast
  then have sm: "sum_list (row ?Y 2) = 1" unfolding e .
  have rw: "row ?Y 2 = [0, 1]" by (simp add: row_def)
  show ?thesis
    by (intro conjI h1 h2 cat_forEach h4 h5' cat_shuffle cat_folderToTensors
          xv[unfolded e] ys[unfolded e] rw sm)
qed

subsection \<open>The observer\<close>


lemma tf_fit_observer:
  assumes "tf_fit env m x y n (onEpochEnd socket) = (trained, history, called)"
    and "tf_fit env m x y n (onEpochEnd socket') = (trained', history', called')"
  shows "trained = trained' \<and> history = history' \<and> map fst called = map fst called'"
proof -
  from fit_epochs_results[of env "onEpochEnd socket" x y 0 n m "onEpochEnd socket'"] assms
  have a: "trained = trained'" "history = history'"
    and c: "called = map (\<lambda>(k, acc). onEpochEnd socket k acc) (zip [0..<0 + n] history)"
    by (simp_all add: tf_fit_def)
  from fit_epochs_results[of env "onEpochEnd socket'" x y 0 n m "onEpochEnd socket'"] assms
  have c': "called' = map (\<lambda>(k, acc). onEpochEnd socket' k acc) (zip [0..<0 + n] history')"
    by (simp add: tf_fit_def)
  have "map fst called = map fst called'"
    unfolding c c' onEpochEnd_console using a by simp
  with a show ?thesis by simp
qed

lemma tf_fit_absent:
  assumes "tf_fit env m x y n (onEpochEnd None) = (trained, history, called)"
  shows "concat (map snd called) = []"
proof -
  from fit_epochs_results[of env "onEpochEnd None" x y 0 n m "onEpochEnd None"] assms
  have c: "called = map (\<lambda>(k, acc). onEpochEnd None k acc) (zip [0..<0 + n] history)"
    by (simp add: tf_fit_def)
  show ?thesis unfolding c by (rule onEpochEnd_events_absent)
qed





text \<open>
  Claim C10. Two runs on the same environment, one without and one with a socket, print the
  same console, open the same files, compute the same dataset, features, history and
  trained model, and end in the same state; the run without a socket sends no event.
\<close>

theorem observer_noninterference:
  "run_console (learnTransferModel env folderPath None) =
     run_console (learnTransferModel env folderPath (Some s)) \<and>
   run_reads (learnTransferModel env folderPath None) =
     run_reads (learnTransferModel env folderPath (Some s)) \<and>
   run_dataset (learnTransferModel env folderPath None) =
     run_dataset (learnTransferModel env folderPath (Some s)) \<and>
   run_features (learnTransferModel env folderPath None) =
     run_features (learnTransferModel env folderPath (Some s)) \<and>
   run_history (learnTransferModel env folderPath None) =
     run_history (learnTransferModel env folderPath (Some s)) \<and>
   run_model (learnTransferModel env folderPath None) =
     run_model (learnTransferModel env folderPath (Some s)) \<and>
   run_promise (learnTransferModel env folderPath None) =
     run_promise (learnTransferModel env folderPath (Some s)) \<and>
   run_exit (learnTransferModel env folderPath None) =
     run_exit (learnTransferModel env folderPath (Some s)) \<and>
   run_events (learnTransferModel env folderPath None) = []"
proof -
  consider
    (exited) "exit_code (folderToTensors env folderPath [224, 224]) = Some 1"
  | (loaded) v where "settled (folderToTensors env folderPath [224, 224]) = Fulfilled v"
      "exit_code (folderToTensors env folderPath [224, 224]) = None"
    using folderToTensors_outcomes[of env folderPath "[224, 224]"] by blast
  then show ?thesis
  proof cases
    case exited
    show ?thesis
      by (simp add: learnTransferModel_exited[OF exited] stopped_def emit_if_def)
  next
    case loaded
    obtain X Y dirnames where v: "v = (X, Y, dirnames)" by (cases v)
    show ?thesis
    proof (cases "loadGraphModel env model_url")
      case (Inl err)
      show ?thesis
        by (simp add: learnTransferModel_load_failed[OF loaded(2) loaded(1)[unfolded v] Inl]
              stopped_def emit_if_def)
    next
      case (Inr featureModel)
      obtain trained history called where
        f: "tf_fit env (sequential env (length dirnames)) (featureModel X) Y 100
              (onEpochEnd None) = (trained, history, called)"
        by (cases "tf_fit env (sequential env (length dirnames)) (featureModel X) Y 100
                     (onEpochEnd None)")
      obtain trained' history' called' where
        f': "tf_fit env (sequential env (length dirnames)) (featureModel X) Y 100
              (onEpochEnd (Some s)) = (trained', history', called')"
        by (cases "tf_fit env (sequential env (length dirnames)) (featureModel X) Y 100
                     (onEpochEnd (Some s))")
      note r = learnTransferModel_trained[OF loaded(2) loaded(1)[unfolded v] Inr f]
      note r' = learnTransferModel_trained[OF loaded(2) loaded(1)[unfolded v] Inr f']
      from tf_fit_observer[OF f f'] tf_fit_absent[OF f] show ?thesis
        unfolding r r' by (simp add: emit_if_def)
    qed
  qed
qed

end
